theory Spec2Isabelle
  imports Main "HOL-Library.Sublist"
begin

section \<open>Python strings\<close>

text \<open>
  The backend (\<^verbatim>\<open>Backend/main.py\<close>) works on Python \<^verbatim>\<open>str\<close> values. They are
  modelled as \<^typ>\<open>string\<close>; the case conversions and the whitespace class are those of
  Python on ASCII text (a character outside ASCII is left alone by \<open>lower\<close> and
  \<open>upper\<close> and is neither a letter, a digit nor a space).
\<close>

definition ascii_uppercase :: string where
  "ascii_uppercase = ''ABCDEFGHIJKLMNOPQRSTUVWXYZ''"

definition ascii_lowercase :: string where
  "ascii_lowercase = ''abcdefghijklmnopqrstuvwxyz''"

definition digits :: string where
  "digits = ''0123456789''"

definition lower_char :: "char \<Rightarrow> char" where
  "lower_char c = (case map_of (zip ascii_uppercase ascii_lowercase) c of Some d \<Rightarrow> d | None \<Rightarrow> c)"

definition upper_char :: "char \<Rightarrow> char" where
  "upper_char c = (case map_of (zip ascii_lowercase ascii_uppercase) c of Some d \<Rightarrow> d | None \<Rightarrow> c)"

definition str_lower :: "string \<Rightarrow> string" where
  "str_lower s = map lower_char s"

definition str_upper :: "string \<Rightarrow> string" where
  "str_upper s = map upper_char s"

text \<open>\<^verbatim>\<open>str.capitalize()\<close>: the first character upper-cased, the rest lower-cased.\<close>

definition str_capitalize :: "string \<Rightarrow> string" where
  "str_capitalize s = (case s of [] \<Rightarrow> [] | c # cs \<Rightarrow> upper_char c # str_lower cs)"

text \<open>
  The characters \<^verbatim>\<open>str.isspace()\<close> accepts in ASCII: tab, line feed, vertical tab, form
  feed, carriage return, the four separators \<^verbatim>\<open>0x1c\<close> to \<^verbatim>\<open>0x1f\<close> and the space. The
  class \<^verbatim>\<open>\s\<close> of the \<^verbatim>\<open>re\<close> module is the same set on a \<^verbatim>\<open>str\<close> pattern.
\<close>

definition is_space :: "char \<Rightarrow> bool" where
  "is_space c = (c \<in> set [CHR 0x09, CHR 0x0A, CHR 0x0B, CHR 0x0C, CHR 0x0D,
                            CHR 0x1C, CHR 0x1D, CHR 0x1E, CHR 0x1F, CHR '' ''])"

definition str_strip :: "string \<Rightarrow> string" where
  "str_strip s = rev (dropWhile is_space (rev (dropWhile is_space s)))"

text \<open>\<^verbatim>\<open>w in s\<close> on strings: \<open>w\<close> occurs in \<open>s\<close> as a contiguous run.\<close>

fun str_in :: "string \<Rightarrow> string \<Rightarrow> bool" where
  "str_in w [] = (w = [])"
| "str_in w (c # cs) = (prefix w (c # cs) \<or> str_in w cs)"

text \<open>\<^verbatim>\<open>any(w in s for w in ws)\<close>.\<close>

definition any_in :: "string list \<Rightarrow> string \<Rightarrow> bool" where
  "any_in ws s = list_ex (\<lambda>w. str_in w s) ws"

text \<open>\<^verbatim>\<open>sep.join(xs)\<close>.\<close>

fun str_join :: "string \<Rightarrow> string list \<Rightarrow> string" where
  "str_join sep [] = []"
| "str_join sep [x] = x"
| "str_join sep (x # y # ys) = x @ sep @ str_join sep (y # ys)"

text \<open>\<^verbatim>\<open>s.replace(c, "")\<close> for a one-character \<open>c\<close>.\<close>

definition str_remove :: "char \<Rightarrow> string \<Rightarrow> string" where
  "str_remove c s = filter (\<lambda>d. d \<noteq> c) s"

text \<open>\<^verbatim>\<open>str(n)\<close> of an integer, as an f-string prints it.\<close>

fun str_of_nat :: "nat \<Rightarrow> string" where
  "str_of_nat n = (if n < 10 then [digits ! n] else str_of_nat (n div 10) @ [digits ! (n mod 10)])"

declare str_of_nat.simps [simp del]

definition str_of_int :: "int \<Rightarrow> string" where
  "str_of_int i = (if i < 0 then ''-'' @ str_of_nat (nat (- i)) else str_of_nat (nat i))"

section \<open>The regular expressions of the \<^verbatim>\<open>re\<close> module that the backend uses\<close>

text \<open>
  Every quantifier in the patterns of \<^verbatim>\<open>main.py\<close> stands on a single character or a
  character class, so the pattern language is: a literal, a greedy \<^verbatim>\<open>+\<close>, \<^verbatim>\<open>*\<close> or
  \<^verbatim>\<open>?\<close> on a class, sequence, ordered alternative and the capturing group.

  \<open>matches r s\<close> lists, in the order in which the backtracking matcher of \<^verbatim>\<open>re\<close>
  tries them (left alternative first, longest repetition first), the ways in which \<open>r\<close>
  matches a prefix of \<open>s\<close>: the text of group 1 (if it took part) and the rest of \<open>s\<close>.
\<close>

datatype regex =
    Lit string
  | Many1 "char \<Rightarrow> bool"
  | Many0 "char \<Rightarrow> bool"
  | Opt1 "char \<Rightarrow> bool"
  | Seq regex regex
  | Alt regex regex
  | Grp regex

fun matches :: "regex \<Rightarrow> string \<Rightarrow> (string option \<times> string) list" where
  "matches (Lit w) s = (if prefix w s then [(None, drop (length w) s)] else [])"
| "matches (Many1 p) s =
     map (\<lambda>k. (None, drop k s)) (rev [1 ..< Suc (length (takeWhile p s))])"
| "matches (Many0 p) s =
     map (\<lambda>k. (None, drop k s)) (rev [0 ..< Suc (length (takeWhile p s))])"
| "matches (Opt1 p) s =
     (case s of [] \<Rightarrow> [(None, [])]
      | c # cs \<Rightarrow> if p c then [(None, cs), (None, s)] else [(None, s)])"
| "matches (Seq a b) s =
     concat (map (\<lambda>(g, r). map (\<lambda>(g', r'). (case g' of None \<Rightarrow> g | Some x \<Rightarrow> Some x, r'))
                               (matches b r))
                 (matches a s))"
| "matches (Alt a b) s = matches a s @ matches b s"
| "matches (Grp a) s =
     map (\<lambda>(g, r). (Some (take (length s - length r) s), r)) (matches a s)"

text \<open>\<^verbatim>\<open>re.match(r, s)\<close> as a truth value: \<open>r\<close> matches at the start of \<open>s\<close>.\<close>

definition re_match :: "regex \<Rightarrow> string \<Rightarrow> bool" where
  "re_match r s = (matches r s \<noteq> [])"

text \<open>
  \<^verbatim>\<open>re.search(r, s)\<close>: the first match at the leftmost position where there is one;
  the result is \<open>None\<close> for no match, and otherwise \<open>Some g\<close> with \<open>g\<close> what
  \<^verbatim>\<open>.group(1)\<close> returns.
\<close>

fun re_search :: "regex \<Rightarrow> string \<Rightarrow> string option option" where
  "re_search r [] = (case matches r [] of [] \<Rightarrow> None | (g, _) # _ \<Rightarrow> Some g)"
| "re_search r (c # cs) =
     (case matches r (c # cs) of [] \<Rightarrow> re_search r cs | (g, _) # _ \<Rightarrow> Some g)"

text \<open>\<^verbatim>\<open>re.fullmatch(r, s)\<close> as a truth value: some way of matching consumes all of \<open>s\<close>.\<close>

definition re_fullmatch :: "regex \<Rightarrow> string \<Rightarrow> bool" where
  "re_fullmatch r s = list_ex (\<lambda>(g, rest). rest = []) (matches r s)"

fun alts :: "regex list \<Rightarrow> regex" where
  "alts [] = Lit []"
| "alts [r] = r"
| "alts (r # rs) = Alt r (alts rs)"

fun seqs :: "regex list \<Rightarrow> regex" where
  "seqs [] = Lit []"
| "seqs [r] = r"
| "seqs (r # rs) = Seq r (seqs rs)"

definition is_alnum :: "char \<Rightarrow> bool" where
  "is_alnum c = (c \<in> set (ascii_lowercase @ ascii_uppercase @ digits))"

definition is_upper_alnum :: "char \<Rightarrow> bool" where
  "is_upper_alnum c = (c \<in> set (ascii_uppercase @ digits))"

section \<open>Knowledge base lookup, sentiment, intent\<close>

text \<open>
  \<^verbatim>\<open>domain_knowledge_bases\<close> is read from \<^verbatim>\<open>domain_questions.json\<close> at start-up, so it is
  a parameter here: for each domain the items of its dictionary, in insertion order.
  \<open>default_knowledge_bases\<close> is the table the source falls back to when the file is absent.
\<close>

type_synonym knowledge_base = "(string \<times> string) list"
type_synonym knowledge_bases = "(string \<times> knowledge_base) list"

definition default_knowledge_bases :: knowledge_bases where
  "default_knowledge_bases =
    [(''general'',
        [(''refund status'', ''Refunds typically take 5-7 business days to process. Please provide your order number to check the status.'')]),
     (''technical'',
        [(''internet not working'', ''Please try restarting your router and modem. If the issue persists, check the service status page for your area.''),
         (''installation help'', ''For installation assistance, please refer to your product manual or visit our online guides.'')]),
     (''finance'',
        [(''billing inquiry'', ''For billing inquiries, please provide your account number. You can also check your last bill online.'')]),
     (''travel'',
        [(''change plan'', ''You can change your service plan through your online account portal or by speaking with a sales representative.''),
         (''flight status'', ''You can check your flight status on the airline's website or app using your booking reference.'')])]"

text \<open>\<^verbatim>\<open>domain_knowledge_bases.get(domain, {})\<close>.\<close>

definition kb_get :: "knowledge_bases \<Rightarrow> string \<Rightarrow> knowledge_base" where
  "kb_get kbs domain = (case map_of kbs domain of Some kb \<Rightarrow> kb | None \<Rightarrow> [])"

definition no_article :: string where
  "no_article = ''No specific knowledge base article found for this query.''"

fun kb_scan :: "knowledge_base \<Rightarrow> string \<Rightarrow> string" where
  "kb_scan [] q = no_article"
| "kb_scan ((keyword, info) # kb) q = (if str_in keyword q then info else kb_scan kb q)"

definition get_knowledge_base_info :: "knowledge_bases \<Rightarrow> string \<Rightarrow> string \<Rightarrow> string" where
  "get_knowledge_base_info kbs query domain = kb_scan (kb_get kbs domain) (str_lower query)"

definition analyze_sentiment :: "string \<Rightarrow> string" where
  "analyze_sentiment text =
     (let text_lower = str_lower text in
      if any_in [''not working'', ''frustrated'', ''annoyed'', ''unhappy'', ''bad'', ''terrible''] text_lower
      then ''frustrated''
      else if any_in [''thank you'', ''resolved'', ''great'', ''happy'', ''good'', ''excellent''] text_lower
      then ''satisfied''
      else ''neutral'')"

text \<open>
  The greeting patterns \<^verbatim>\<open>hi+\<close>, \<^verbatim>\<open>hello+\<close>, \<^verbatim>\<open>hey+\<close>, \<^verbatim>\<open>good morning\<close>,
  \<^verbatim>\<open>good afternoon\<close>, \<^verbatim>\<open>good evening\<close>.
\<close>

definition greeting_patterns :: "regex list" where
  "greeting_patterns =
    [Seq (Lit ''h'') (Many1 (\<lambda>c. c = CHR ''i'')),
     Seq (Lit ''hell'') (Many1 (\<lambda>c. c = CHR ''o'')),
     Seq (Lit ''he'') (Many1 (\<lambda>c. c = CHR ''y'')),
     Lit ''good morning'',
     Lit ''good afternoon'',
     Lit ''good evening'']"

text \<open>
  The three shop-id patterns, in the order of the source:
  \<^verbatim>\<open>(?:my\s+order\s+number\s+is|order\s+number\s+is|order\s+id\s+is|shopid\s+is|id\s+is)\s*[\#]?([a-zA-Z0-9]+)\<close>,
  \<^verbatim>\<open>(?:shopid|orderid|tracking|ref|id)[\s:]*[\#]?([a-zA-Z0-9]+)\<close> and
  \<^verbatim>\<open>([a-zA-Z0-9]+)\s+(?:order|shopid|tracking|ref|id)\<close>.
\<close>

definition ws1 :: regex where
  "ws1 = Many1 is_space"

definition hash_opt :: regex where
  "hash_opt = Opt1 (\<lambda>c. c = CHR ''#'')"

definition shopid_patterns :: "regex list" where
  "shopid_patterns =
    [seqs [alts [seqs [Lit ''my'', ws1, Lit ''order'', ws1, Lit ''number'', ws1, Lit ''is''],
                 seqs [Lit ''order'', ws1, Lit ''number'', ws1, Lit ''is''],
                 seqs [Lit ''order'', ws1, Lit ''id'', ws1, Lit ''is''],
                 seqs [Lit ''shopid'', ws1, Lit ''is''],
                 seqs [Lit ''id'', ws1, Lit ''is'']],
           Many0 is_space, hash_opt, Grp (Many1 is_alnum)],
     seqs [alts [Lit ''shopid'', Lit ''orderid'', Lit ''tracking'', Lit ''ref'', Lit ''id''],
           Many0 (\<lambda>c. is_space c \<or> c = CHR '':''), hash_opt, Grp (Many1 is_alnum)],
     seqs [Grp (Many1 is_alnum), ws1,
           alts [Lit ''order'', Lit ''shopid'', Lit ''tracking'', Lit ''ref'', Lit ''id'']]]"

text \<open>
  The loop over \<^verbatim>\<open>shopid_patterns\<close> with its \<^verbatim>\<open>break\<close>: the group of the first
  pattern that is found in the query.
\<close>

fun first_shopid :: "regex list \<Rightarrow> string \<Rightarrow> string option option" where
  "first_shopid [] q = None"
| "first_shopid (p # ps) q =
     (case re_search p q of Some g \<Rightarrow> Some g | None \<Rightarrow> first_shopid ps q)"

text \<open>
  The \<^verbatim>\<open>entities\<close> dictionary holds at most the key \<^verbatim>\<open>shopid\<close>; a value is a Python
  \<^verbatim>\<open>str | None\<close>.
\<close>

type_synonym entities = "(string \<times> string option) list"

definition keyword_intent :: "string \<Rightarrow> string" where
  "keyword_intent query_lower =
     (if any_in [''internet'', ''wifi'', ''connection'', ''network'', ''technical issue'', ''troubleshoot'', ''device''] query_lower
      then ''technical_support''
      else if any_in [''bill'', ''invoice'', ''payment'', ''charge'', ''account balance'', ''billing issue'', ''cost'', ''fee''] query_lower
      then ''billing_inquiry''
      else if str_in ''refund'' query_lower
      then ''refund_request''
      else if any_in [''installation'', ''setup'', ''install'', ''new service'', ''activate''] query_lower
      then ''installation_support''
      else if any_in [''change plan'', ''upgrade'', ''downgrade'', ''new plan'', ''service package'', ''contract''] query_lower
      then ''plan_management''
      else if any_in [''order status'', ''track order'', ''where is my order'', ''delivery'', ''shipping'', ''item arrived''] query_lower
      then ''order_status''
      else if any_in [''loan'', ''mortgage'', ''investment'', ''credit card'', ''bank account'', ''financial advice'', ''money''] query_lower
      then ''finance_query''
      else if any_in [''booking'', ''flight'', ''hotel'', ''reservation'', ''vacation'', ''tour'', ''travel plan'', ''destination'', ''trip''] query_lower
      then ''travel_hospitality_query''
      else ''general_inquiry'')"

definition determine_intent_and_urgency :: "string \<Rightarrow> string \<times> string \<times> entities" where
  "determine_intent_and_urgency query =
     (let urgency = ''low'';
          query_lower = str_strip (str_lower query)
      in if list_ex (\<lambda>pattern. re_match pattern query_lower) greeting_patterns
         then (''greeting'', urgency, [])
         else (case first_shopid shopid_patterns query_lower of
                 Some extracted_id \<Rightarrow> (''order_status'', urgency, [(''shopid'', extracted_id)])
               | None \<Rightarrow> (keyword_intent query_lower, urgency, [])))"

section \<open>Escalation policy\<close>

definition escalating_intents :: "string list" where
  "escalating_intents =
     [''technical_support'', ''billing_inquiry'', ''finance_query'', ''travel_hospitality_query'', ''order_status'']"

definition manage_case_escalation :: "nat \<Rightarrow> string \<Rightarrow> string \<Rightarrow> string \<Rightarrow> bool \<Rightarrow> bool" where
  "manage_case_escalation current_turn intent urgency sentiment escalated_in_session =
     (if escalated_in_session then True
      else if urgency = ''high'' \<and> sentiment = ''frustrated'' then True
      else if current_turn > 3 \<and> sentiment = ''frustrated'' then True
      else if intent \<in> set escalating_intents \<and> current_turn > 2 then True
      else False)"

section \<open>Order lookup\<close>

text \<open>
  A document of the \<^verbatim>\<open>orders\<close> collection, as far as the lookup reads it; a key that the
  document lacks is \<open>None\<close>.
\<close>

record order_doc =
  product_name :: "string option"
  payment_status :: "string option"
  delivery_date :: "string option"

text \<open>
  The \<^verbatim>\<open>datetime\<close> library is a parameter: a date is its day number,
  \<open>strptime_ymd s\<close> is \<^verbatim>\<open>datetime.strptime(s, "%Y-%m-%d").date()\<close> (\<open>None\<close> when it
  raises \<^verbatim>\<open>ValueError\<close>), \<open>strftime_long d\<close> is \<^verbatim>\<open>d.strftime('%B %d, %Y')\<close>,
  \<open>today\<close> is \<^verbatim>\<open>datetime.today().date()\<close> and \<open>now n\<close> is what the \<open>n\<close>-th call of
  \<^verbatim>\<open>datetime.now().isoformat()\<close> within a request returns. The Gemini client is a
  parameter as well: \<open>send_message history text\<close> is the reply to
  \<^verbatim>\<open>start_chat(history).send_message_async(text)\<close>, \<open>generate_content prompt\<close> the
  reply to \<^verbatim>\<open>generate_content_async(prompt)\<close>, and \<open>None\<close> stands for any exception
  raised on the way to \<^verbatim>\<open>response.text\<close>.
\<close>

type_synonym gemini_message = "string \<times> string list"

record env =
  domain_knowledge_bases :: knowledge_bases
  strptime_ymd :: "string \<Rightarrow> int option"
  strftime_long :: "int \<Rightarrow> string"
  today :: int
  now :: "nat \<Rightarrow> string"
  send_message :: "gemini_message list \<Rightarrow> string \<Rightarrow> string option"
  generate_content :: "string \<Rightarrow> string option"

definition apostrophe :: string where
  "apostrophe = [CHR 0x27]"

definition lookup_unavailable :: string where
  "lookup_unavailable = ''I'm so sorry, but the order lookup service is temporarily unavailable. Please try again in a little while!''"

definition no_shop_id :: string where
  "no_shop_id = ''It looks like a Shop ID wasn't included in your message. To check your order, please provide your Shop ID (e.g., 'What's the status of order SHOPID123?').''"

definition malformed_id :: "string \<Rightarrow> string" where
  "malformed_id shopid_clean =
     ''I couldn't find an order with that ID: '' @ apostrophe @ shopid_clean @ apostrophe @
     ''. Could you double-check it for me? Shop IDs usually contain letters and numbers only.''"

definition order_not_found :: "string \<Rightarrow> string" where
  "order_not_found shopid_clean =
     ''I'm sorry, but I couldn't find an order with the ID '' @ apostrophe @ shopid_clean @ apostrophe @
     ''. Please double-check the ID and try again, or contact our support team for more help!''"

definition delivery_info_of :: "env \<Rightarrow> string option \<Rightarrow> string" where
  "delivery_info_of e delivery_str =
     (case delivery_str of
        None \<Rightarrow> ''Not Available''
      | Some ds \<Rightarrow>
          if ds = [] then ''Not Available''
          else (case strptime_ymd e ds of
                  None \<Rightarrow> apostrophe @ ds @ apostrophe @
                          '' (Invalid date format stored. Please contact support to correct this.)''
                | Some delivery \<Rightarrow>
                    let days_left = delivery - today e in
                    if days_left > 0
                    then strftime_long e delivery @ '' (expected in '' @ str_of_int days_left @ '' days)''
                    else if days_left = 0
                    then strftime_long e delivery @ '' (expected today!)''
                    else strftime_long e delivery @ '' (was '' @ str_of_int (abs days_left) @
                         '' days ago, possibly delivered or completed)''))"

text \<open>
  \<open>orders_collection\<close> is \<open>None\<close> when the client was not set up, and otherwise answers
  \<^verbatim>\<open>find_one({"shopid": x})\<close>. The lookup returns its message together with the queries it
  sent to the collection, in order. Under \<^verbatim>\<open>re.fullmatch\<close> the anchors of
  \<^verbatim>\<open>^[A-Z0-9]+$\<close> add nothing: the match starts at the first character and has to end
  after the last one.
\<close>

type_synonym orders = "string \<Rightarrow> order_doc option"

definition get_order_details_by_id :: "env \<Rightarrow> orders option \<Rightarrow> string option \<Rightarrow> string \<times> string list" where
  "get_order_details_by_id e orders_collection shopid =
     (case orders_collection of
        None \<Rightarrow> (lookup_unavailable, [])
      | Some find_one \<Rightarrow>
          (case shopid of
             None \<Rightarrow> (no_shop_id, [])
           | Some sid \<Rightarrow>
               if sid = [] then (no_shop_id, [])
               else
                 let shopid_clean = str_upper (str_strip sid) in
                 if \<not> re_fullmatch (Many1 is_upper_alnum) shopid_clean
                 then (malformed_id shopid_clean, [])
                 else (case find_one shopid_clean of
                         None \<Rightarrow> (order_not_found shopid_clean, [shopid_clean])
                       | Some order \<Rightarrow>
                           let product = (case product_name order of Some p \<Rightarrow> p | None \<Rightarrow> ''Unknown Product'');
                               payment = (case payment_status order of Some p \<Rightarrow> p | None \<Rightarrow> ''Unknown'');
                               delivery_info = delivery_info_of e (delivery_date order)
                           in (''Order found:\<newline>'' @
                               ''Product: '' @ product @ ''\<newline>'' @
                               ''Payment Status: '' @ payment @ ''\<newline>'' @
                               ''Estimated Delivery: '' @ delivery_info,
                               [shopid_clean]))))"

section \<open>Documents, requests and responses\<close>

text \<open>
  The Pydantic models \<^verbatim>\<open>ChatMessage\<close>, \<^verbatim>\<open>CustomerProfile\<close>, \<^verbatim>\<open>ChatRequest\<close> and
  \<^verbatim>\<open>ChatResponse\<close>, and the document that \<^verbatim>\<open>chat_endpoint\<close> stores in the \<^verbatim>\<open>cases\<close>
  collection. Field names are those of the source; the fields of a case document that
  share a name with a field of the request carry the prefix \<open>doc_\<close> (\<open>doc_id\<close> is
  \<^verbatim>\<open>_id\<close>). A key that a document lacks (\<^verbatim>\<open>summary\<close> before the case is resolved,
  \<^verbatim>\<open>active_case_id\<close> after \<^verbatim>\<open>$unset\<close>) is \<open>None\<close>.
\<close>

record ChatMessage =
  role :: string
  content :: string
  timestamp :: string

record CustomerProfile =
  customer_id :: string
  previous_interactions :: "string list"
  purchase_history :: "string list"
  preference_settings :: "(string \<times> string) list"
  sentiment_history :: "string list"
  active_case_id :: "string option"

record case_doc =
  doc_id :: string
  doc_session_id :: string
  doc_customer_id :: string
  status :: string
  created_at :: string
  last_updated :: string
  initial_query :: string
  doc_conversation_history :: "ChatMessage list"
  escalated :: bool
  summary :: "string option"
  doc_domain :: string

record ChatRequest =
  user_query :: string
  session_id :: string
  customer_profile :: CustomerProfile
  conversation_history :: "ChatMessage list"
  shop_id_for_order_lookup :: "string option"
  domain :: string

record ChatResponse =
  bot_response :: string
  case_status :: string
  case_id :: "string option"
  faq_suggestion :: "string option"
  sentiment_detected :: "string option"

text \<open>
  The module-level collection handles. A handle is \<open>None\<close> when the MongoDB client could
  not be set up. The \<^verbatim>\<open>customers\<close> and \<^verbatim>\<open>cases\<close> collections are maps from \<^verbatim>\<open>_id\<close> to
  the document: MongoDB keeps \<^verbatim>\<open>_id\<close> unique within a collection.
\<close>

type_synonym cases = "string \<rightharpoonup> case_doc"
type_synonym customers = "string \<rightharpoonup> CustomerProfile"

record globals =
  orders_collection :: "orders option"
  cases_collection :: "cases option"
  customers_collection :: "customers option"

text \<open>
  What a request can raise: the \<^verbatim>\<open>HTTPException\<close>s of the source (status code and
  detail), the \<^verbatim>\<open>DuplicateKeyError\<close> of \<^verbatim>\<open>insert_one\<close> on an \<^verbatim>\<open>_id\<close> that is taken,
  and the \<^verbatim>\<open>KeyError\<close> of a dictionary subscript.
\<close>

datatype error =
    HTTPException nat string
  | DuplicateKeyError string
  | KeyError string

text \<open>
  The outcome of a request: what it returns or raises, the collections afterwards, and
  the calls it made to the language model (history and final message), in order.
\<close>

type_synonym llm_call = "gemini_message list \<times> string"
type_synonym 'a outcome = "(error + 'a) \<times> globals \<times> llm_call list"

section \<open>Domain restriction\<close>

definition domain_map :: "(string \<times> string list) list" where
  "domain_map =
    [(''general'', [''general_inquiry'', ''greeting'']),
     (''technical'', [''technical_support'', ''installation_support'', ''greeting'']),
     (''finance'', [''finance_query'', ''billing_inquiry'', ''greeting'']),
     (''travel'', [''travel_hospitality_query'', ''greeting'', ''order_status''])]"

text \<open>\<^verbatim>\<open>domain_map.get(request.domain, [])\<close>.\<close>

definition permitted_intents :: "string \<Rightarrow> string list" where
  "permitted_intents d = (case map_of domain_map d of Some l \<Rightarrow> l | None \<Rightarrow> [])"

text \<open>The domain restriction of \<^verbatim>\<open>chat_endpoint\<close>: true when the turn is refused.\<close>

definition domain_denied :: "string \<Rightarrow> string \<Rightarrow> bool" where
  "domain_denied intent d =
     (if intent \<notin> set (permitted_intents d)
      then (if intent = ''order_status'' \<and> d = ''general'' then False
            else if intent = ''general_inquiry'' \<and> d \<noteq> ''general'' then False
            else True)
      else False)"

definition refusal_text :: "string \<Rightarrow> string" where
  "refusal_text d =
     ''I'm sorry, but I can only help with **'' @ str_capitalize d @
     ''**-related queries here. To ask about something else, please return to the homepage and select a different chat domain!''"

definition refusal :: "string \<Rightarrow> ChatResponse" where
  "refusal d =
     \<lparr>bot_response = refusal_text d,
      case_status = ''closed'',
      case_id = None,
      faq_suggestion = None,
      sentiment_detected = Some ''unanswered''\<rparr>"

section \<open>Prompt for the language model\<close>

definition domain_prompts :: "string \<rightharpoonup> string" where
  "domain_prompts = map_of
    [(''general'', ''You are a friendly customer support assistant. Your primary task is to answer general queries. You should also answer questions about order status.''),
     (''technical'', ''You are a technical support agent. Your task is to help users with technical issues.''),
     (''finance'', ''You are a finance support agent. Your task is to answer financial queries.''),
     (''travel'', ''You are a travel assistant. Your task is to answer travel and hospitality queries.'')]"

text \<open>
  The loop \<^verbatim>\<open>domain_prompts[request.domain] += ...\<close> over the items of the domain's
  knowledge base: the subscript raises \<^verbatim>\<open>KeyError\<close> when the domain has no prompt.
\<close>

fun add_examples :: "string \<Rightarrow> knowledge_base \<Rightarrow> (string \<rightharpoonup> string) \<Rightarrow> error + (string \<rightharpoonup> string)" where
  "add_examples d [] prompts = Inr prompts"
| "add_examples d ((q, a) # kb) prompts =
     (case prompts d of
        None \<Rightarrow> Inl (KeyError d)
      | Some p \<Rightarrow> add_examples d kb (prompts(d \<mapsto> p @ ''\<newline>Q: '' @ q @ ''\<newline>A: '' @ a)))"

definition base_system_instruction :: "string \<Rightarrow> (string \<rightharpoonup> string) \<Rightarrow> string" where
  "base_system_instruction d prompts =
     ''You are a friendly, empathetic, and professional customer support assistant. '' @
     ''Your expertise is strictly limited to **'' @ d @ ''**-related customer support queries. '' @
     (case prompts d of Some p \<Rightarrow> p | None \<Rightarrow> []) @ ''\<newline>'' @
     ''If a user asks something outside this domain, gently explain your scope and offer to assist with relevant topics. '' @
     ''Maintain a conversational and approachable tone, like a helpful human agent. '' @
     ''Be concise and actionable in your advice.''"

text \<open>
  \<^verbatim>\<open>gemini_messages\<close> before the final instruction is appended, that is
  \<^verbatim>\<open>gemini_messages[:-1]\<close>, the history handed to \<^verbatim>\<open>start_chat\<close>.
\<close>

definition gemini_history :: "string \<Rightarrow> (string \<rightharpoonup> string) \<Rightarrow> ChatMessage list \<Rightarrow> gemini_message list" where
  "gemini_history d prompts case_history =
     [(''user'', [base_system_instruction d prompts]),
      (''model'', [''Understood. I am ready to assist customers within these topics with a helpful and friendly tone.''])] @
     map (\<lambda>msg. (if role msg = ''bot'' then ''model'' else ''user'', [content msg])) case_history"

definition long_term_memory_summary :: "CustomerProfile \<Rightarrow> string" where
  "long_term_memory_summary p =
     (if previous_interactions p \<noteq> []
      then ''Past interactions summary:\<newline>'' @ str_join ''\<newline>'' (previous_interactions p)
      else ''N/A'')"

text \<open>\<^verbatim>\<open>a or b\<close> on two values of type \<^verbatim>\<open>str | None\<close>.\<close>

definition py_or :: "string option \<Rightarrow> string option \<Rightarrow> string option" where
  "py_or a b = (case a of None \<Rightarrow> b | Some s \<Rightarrow> if s = [] then b else Some s)"

text \<open>\<^verbatim>\<open>extracted_entities.get("shopid")\<close>.\<close>

definition entities_get_shopid :: "entities \<Rightarrow> string option" where
  "entities_get_shopid ents = (case map_of ents ''shopid'' of Some v \<Rightarrow> v | None \<Rightarrow> None)"

text \<open>How an f-string prints the \<^verbatim>\<open>entities\<close> dictionary.\<close>

definition repr_entities :: "entities \<Rightarrow> string" where
  "repr_entities ents =
     ''{'' @ str_join '', ''
              (map (\<lambda>(k, v). apostrophe @ k @ apostrophe @ '': '' @
                              (case v of None \<Rightarrow> ''None'' | Some s \<Rightarrow> apostrophe @ s @ apostrophe))
                   ents) @ ''}''"

definition greeting_instruction :: string where
  "greeting_instruction = ''The user has just started the conversation or said hello. Provide a very brief, friendly greeting and ask how you can help them today. Do NOT identify yourself as a virtual assistant or AI. Respond concisely.''"

definition order_instruction :: "string \<Rightarrow> string" where
  "order_instruction order_details_tool_output =
     ''The customer asked for order status. You've performed a lookup and the tool returned the following information:\<newline>\<newline>'' @
     order_details_tool_output @ ''\<newline>\<newline>'' @
     ''Your task is to summarize this information clearly and concisely for the user, focusing on the product, payment, and delivery status. '' @
     ''If the tool indicates 'No order found' or an error, politely explain this and ask for a correct ID. '' @
     ''Maintain a warm and natural tone. Conclude by offering further assistance.''"

definition knowledge_instruction :: "string \<Rightarrow> string \<Rightarrow> string" where
  "knowledge_instruction user_q knowledge_info =
     ''The user asked about '' @ apostrophe @ user_q @ apostrophe @
     ''. You found relevant information in your knowledge base: '' @ apostrophe @ knowledge_info @ apostrophe @ ''. '' @
     ''Present this information in a friendly, helpful, and human-like way. '' @
     ''End by asking if that was what they were looking for or if they need more help. Be concise.''"

definition fallback_instruction ::
  "string \<Rightarrow> CustomerProfile \<Rightarrow> string \<Rightarrow> string \<Rightarrow> string \<Rightarrow> entities \<Rightarrow> string" where
  "fallback_instruction user_q p user_sentiment intent urgency ents =
     ''Customer Query: '' @ user_q @ ''\<newline>'' @
     ''Customer ID: '' @ customer_id p @ ''\<newline>'' @
     ''Long-term memory: '' @ long_term_memory_summary p @ ''\<newline>'' @
     ''Customer's current sentiment: '' @ user_sentiment @ ''\<newline>'' @
     ''Detected intent: '' @ intent @ ''. Urgency: '' @ urgency @ ''.\<newline>'' @
     ''Extracted entities: '' @ repr_entities ents @ ''\<newline>''"

definition final_llm_instruction ::
  "env \<Rightarrow> orders option \<Rightarrow> ChatRequest \<Rightarrow> CustomerProfile \<Rightarrow> string \<Rightarrow> string \<Rightarrow> entities \<Rightarrow>
   string \<Rightarrow> nat \<Rightarrow> string" where
  "final_llm_instruction e orders request p intent urgency ents user_sentiment current_turn =
     (if intent = ''greeting'' \<and> current_turn = 1 then greeting_instruction
      else if intent = ''order_status''
      then (let shopid_for_lookup = py_or (entities_get_shopid ents) (shop_id_for_order_lookup request);
                order_details_tool_output = fst (get_order_details_by_id e orders shopid_for_lookup)
            in order_instruction order_details_tool_output)
      else if get_knowledge_base_info (domain_knowledge_bases e) (user_query request) (domain request) \<noteq> no_article
      then knowledge_instruction (user_query request)
             (get_knowledge_base_info (domain_knowledge_bases e) (user_query request) (domain request))
      else fallback_instruction (user_query request) p user_sentiment intent urgency ents)"

section \<open>The chat endpoint\<close>

definition apology :: string where
  "apology = ''Oh dear, I seem to be having a little trouble at the moment. Please bear with me and try again in a bit, or feel free to reach out to our human support directly if it's urgent!''"

definition handoff_notice :: string where
  "handoff_notice = ''\<newline>\<newline>**Just a heads-up**: Based on our conversation, I think it might be best if a human agent steps in. I'm escalating this for you, and someone will review our chat and get in touch shortly!''"

definition unavailable_503 :: error where
  "unavailable_503 = HTTPException 503 ''MongoDB collections for cases and customers are not initialized. Check server logs.''"

text \<open>\<^verbatim>\<open>cases_collection.find_one({"_id": case_id, "customer_id": customer_id})\<close>.\<close>

definition find_case :: "cases \<Rightarrow> string \<Rightarrow> string \<Rightarrow> case_doc option" where
  "find_case cs cid cust =
     (case cs cid of
        None \<Rightarrow> None
      | Some c \<Rightarrow> if doc_customer_id c = cust then Some c else None)"

text \<open>The document of a new case; the clock is read twice.\<close>

definition new_case :: "env \<Rightarrow> ChatRequest \<Rightarrow> case_doc" where
  "new_case e request =
     \<lparr>doc_id = session_id request,
      doc_session_id = session_id request,
      doc_customer_id = customer_id (customer_profile request),
      status = ''open'',
      created_at = now e 0,
      last_updated = now e 1,
      initial_query = user_query request,
      doc_conversation_history = [],
      escalated = False,
      summary = None,
      doc_domain = domain request\<rparr>"

text \<open>\<^verbatim>\<open>customers_collection.update_one({"_id": cust}, {"$set": {"active_case_id": cid}})\<close>.\<close>

definition set_active_case :: "customers \<Rightarrow> string \<Rightarrow> string \<Rightarrow> customers" where
  "set_active_case cu cust cid =
     (case cu cust of
        None \<Rightarrow> cu
      | Some p \<Rightarrow> cu(cust \<mapsto> p\<lparr>active_case_id := Some cid\<rparr>))"

text \<open>
  The \<^verbatim>\<open>update_one\<close> that ends a turn: it sets \<^verbatim>\<open>conversation_history\<close>,
  \<^verbatim>\<open>last_updated\<close>, \<^verbatim>\<open>status\<close> and \<^verbatim>\<open>escalated\<close> of the document with the given
  \<^verbatim>\<open>_id\<close>.
\<close>

definition persist_turn :: "cases \<Rightarrow> string \<Rightarrow> ChatMessage list \<Rightarrow> string \<Rightarrow> string \<Rightarrow> bool \<Rightarrow> cases" where
  "persist_turn cs cid case_history updated case_st esc =
     (case cs cid of
        None \<Rightarrow> cs
      | Some c \<Rightarrow> cs(cid \<mapsto> c\<lparr>doc_conversation_history := case_history,
                                  last_updated := updated,
                                  status := case_st,
                                  escalated := esc\<rparr>))"

text \<open>
  The endpoint from the intent check on. \<open>current_case_data\<close> is the case document found
  or just inserted, \<open>p\<close> the profile loaded or just inserted, \<open>cs\<close> and \<open>cu\<close> the two
  collections at that point, and \<open>k\<close> the number of clock reads made so far.
\<close>

definition chat_turn ::
  "env \<Rightarrow> ChatRequest \<Rightarrow> globals \<Rightarrow> cases \<Rightarrow> customers \<Rightarrow> case_doc \<Rightarrow> CustomerProfile \<Rightarrow> nat \<Rightarrow>
   ChatResponse outcome" where
  "chat_turn e request g cs cu current_case_data p k =
     (let g1 = g\<lparr>cases_collection := Some cs, customers_collection := Some cu\<rparr>;
          (intent, urgency, extracted_entities) = determine_intent_and_urgency (user_query request);
          user_sentiment = analyze_sentiment (user_query request);
          case_history = conversation_history request;
          current_turn = length case_history div 2 + 1
      in if domain_denied intent (domain request)
         then (Inr (refusal (domain request)), g1, [])
         else
           (case add_examples (domain request)
                   (kb_get (domain_knowledge_bases e) (domain request)) domain_prompts of
              Inl err \<Rightarrow> (Inl err, g1, [])
            | Inr prompts \<Rightarrow>
                let history = gemini_history (domain request) prompts case_history;
                    final = final_llm_instruction e (orders_collection g) request p intent urgency
                              extracted_entities user_sentiment current_turn;
                    reply = send_message e history final;
                    bot_response_text0 = (case reply of Some t \<Rightarrow> t | None \<Rightarrow> apology);
                    escalated0 = (case reply of Some t \<Rightarrow> escalated current_case_data | None \<Rightarrow> True);
                    should_escalate =
                      manage_case_escalation current_turn intent urgency user_sentiment escalated0;
                    newly = (should_escalate \<and> \<not> escalated0);
                    escalated1 = (if newly then True else escalated0);
                    status1 = (if newly then ''escalated_to_human'' else status current_case_data);
                    bot_response_text =
                      (if newly then bot_response_text0 @ handoff_notice else bot_response_text0);
                    case_history1 = case_history @
                      [\<lparr>role = ''user'', content = user_query request, timestamp = now e k\<rparr>,
                       \<lparr>role = ''bot'', content = bot_response_text, timestamp = now e (k + 1)\<rparr>];
                    cs1 = persist_turn cs (session_id request) case_history1 (now e (k + 2)) status1 escalated1
                in (Inr \<lparr>bot_response = bot_response_text,
                         case_status = status1,
                         case_id = Some (session_id request),
                         faq_suggestion = Some (get_knowledge_base_info (domain_knowledge_bases e)
                                                  (user_query request) (domain request)),
                         sentiment_detected = Some user_sentiment\<rparr>,
                    g\<lparr>cases_collection := Some cs1, customers_collection := Some cu\<rparr>,
                    [(history, final)])))"

text \<open>
  The first step of \<^verbatim>\<open>chat_endpoint\<close>: the stored profile of the customer, or the
  profile of the request, inserted under the customer's id.
\<close>

definition load_or_create_profile :: "customers \<Rightarrow> ChatRequest \<Rightarrow> CustomerProfile \<times> customers" where
  "load_or_create_profile cu request =
     (let cust = customer_id (customer_profile request)
      in case cu cust of
           Some found \<Rightarrow> (found, cu)
         | None \<Rightarrow> (customer_profile request, cu(cust \<mapsto> customer_profile request)))"

text \<open>
  \<^verbatim>\<open>chat_endpoint\<close>. The source tests \<^verbatim>\<open>genai is None\<close> first; \<^verbatim>\<open>genai\<close> is the imported
  module, so that test never succeeds.
\<close>

definition chat_endpoint :: "env \<Rightarrow> ChatRequest \<Rightarrow> globals \<Rightarrow> ChatResponse outcome" where
  "chat_endpoint e request g =
     (case cases_collection g of
        None \<Rightarrow> (Inl unavailable_503, g, [])
      | Some cs \<Rightarrow>
     (case customers_collection g of
        None \<Rightarrow> (Inl unavailable_503, g, [])
      | Some cu \<Rightarrow>
          let cust = customer_id (customer_profile request);
              (p, cu1) = load_or_create_profile cu request;
              cid = session_id request
          in (case find_case cs cid cust of
                Some current_case_data \<Rightarrow> chat_turn e request g cs cu1 current_case_data p 0
              | None \<Rightarrow>
                  (case cs cid of
                     Some taken \<Rightarrow>
                       (Inl (DuplicateKeyError cid),
                        g\<lparr>cases_collection := Some cs, customers_collection := Some cu1\<rparr>, [])
                   | None \<Rightarrow>
                       chat_turn e request g (cs(cid \<mapsto> new_case e request))
                         (set_active_case cu1 cust cid) (new_case e request) p 2))))"

section \<open>Case resolution\<close>

definition summary_prompt_of :: "string \<Rightarrow> string" where
  "summary_prompt_of history_string =
     ''Provide a concise, 5-10 word title for this customer support chat conversation. '' @
     ''Focus on the main issue. The conversation is as follows: '' @ history_string"

definition resolve_case_endpoint :: "env \<Rightarrow> string \<Rightarrow> globals \<Rightarrow> (error + string) \<times> globals" where
  "resolve_case_endpoint e cid g =
     (case cases_collection g of
        None \<Rightarrow> (Inl (HTTPException 503 ''MongoDB collections for cases and customers are not initialized.''), g)
      | Some cs \<Rightarrow>
     (case customers_collection g of
        None \<Rightarrow> (Inl (HTTPException 503 ''MongoDB collections for cases and customers are not initialized.''), g)
      | Some cu \<Rightarrow>
          (case cs cid of
             None \<Rightarrow> (Inl (HTTPException 404 ''Case not found.''), g)
           | Some c \<Rightarrow>
               if status c \<in> set [''resolved'', ''closed'']
               then (Inr (''Case '' @ cid @ '' is already resolved.''), g)
               else
                 let history_string = str_join '' '' (map content (doc_conversation_history c));
                     summary_text =
                       (case generate_content e (summary_prompt_of history_string) of
                          Some t \<Rightarrow> str_remove (CHR 0x22) (str_strip t)
                        | None \<Rightarrow> ''Case '' @ cid @ '' was resolved on '' @ now e 0 @
                                  ''. The primary issue was not automatically summarized.'');
                     cu1 = (case cu (doc_customer_id c) of
                              None \<Rightarrow> cu
                            | Some p \<Rightarrow>
                                cu(doc_customer_id c \<mapsto>
                                     p\<lparr>previous_interactions := previous_interactions p @ [summary_text],
                                       active_case_id := None\<rparr>));
                     cs1 = cs(cid \<mapsto> c\<lparr>status := ''resolved'', summary := Some summary_text\<rparr>)
                 in (Inr (''Case '' @ cid @ '' resolved and summarized in customer's long-term memory.''),
                     g\<lparr>cases_collection := Some cs1, customers_collection := Some cu1\<rparr>))))"

section \<open>Notions used in the statements\<close>

text \<open>The stored case with a given \<^verbatim>\<open>_id\<close>, and the stored profile of a customer.\<close>

definition case_of :: "globals \<Rightarrow> string \<Rightarrow> case_doc option" where
  "case_of g cid = (case cases_collection g of None \<Rightarrow> None | Some cs \<Rightarrow> cs cid)"

definition profile_of :: "globals \<Rightarrow> string \<Rightarrow> CustomerProfile option" where
  "profile_of g cust = (case customers_collection g of None \<Rightarrow> None | Some cu \<Rightarrow> cu cust)"

text \<open>The case that \<^verbatim>\<open>chat_endpoint\<close> loads for a request.\<close>

definition loaded_case :: "globals \<Rightarrow> ChatRequest \<Rightarrow> case_doc option" where
  "loaded_case g request =
     (case cases_collection g of
        None \<Rightarrow> None
      | Some cs \<Rightarrow> find_case cs (session_id request) (customer_id (customer_profile request)))"

text \<open>
  The insertion of a new case raises when the session id is the \<^verbatim>\<open>_id\<close> of a case of
  another customer.
\<close>

definition id_collision :: "globals \<Rightarrow> ChatRequest \<Rightarrow> bool" where
  "id_collision g request =
     (loaded_case g request = None \<and> case_of g (session_id request) \<noteq> None)"

definition intent_of :: "string \<Rightarrow> string" where
  "intent_of query = fst (determine_intent_and_urgency query)"





text \<open>The two entries that a turn adds to the conversation history.\<close>

definition turn_entries :: "string \<Rightarrow> string \<Rightarrow> string \<Rightarrow> string \<Rightarrow> ChatMessage list" where
  "turn_entries user_q t1 bot_text t2 =
     [\<lparr>role = ''user'', content = user_q, timestamp = t1\<rparr>,
      \<lparr>role = ''bot'', content = bot_text, timestamp = t2\<rparr>]"

subsection \<open>Sample data\<close>

definition sample_env :: "knowledge_bases \<Rightarrow> string option \<Rightarrow> env" where
  "sample_env kbs reply =
     \<lparr>domain_knowledge_bases = kbs,
      strptime_ymd = (\<lambda>s. None),
      strftime_long = (\<lambda>d. []),
      today = 0,
      now = (\<lambda>n. ''2026-01-01T00:00:0'' @ str_of_nat n),
      send_message = (\<lambda>history text. reply),
      generate_content = (\<lambda>prompt. None)\<rparr>"

definition sample_profile :: CustomerProfile where
  "sample_profile =
     \<lparr>customer_id = ''c1'', previous_interactions = [], purchase_history = [],
      preference_settings = [], sentiment_history = [], active_case_id = None\<rparr>"

definition sample_request :: "string \<Rightarrow> string \<Rightarrow> ChatMessage list \<Rightarrow> ChatRequest" where
  "sample_request d q history =
     \<lparr>user_query = q, session_id = ''s1'', customer_profile = sample_profile,
      conversation_history = history, shop_id_for_order_lookup = None, domain = d\<rparr>"

definition no_orders :: orders where
  "no_orders shopid = None"

definition fresh_globals :: globals where
  "fresh_globals =
     \<lparr>orders_collection = Some no_orders,
      cases_collection = Some Map.empty,
      customers_collection = Some Map.empty\<rparr>"

text \<open>A stored case of the sample customer with one earlier turn.\<close>

definition sample_case :: "string \<Rightarrow> case_doc" where
  "sample_case st =
     \<lparr>doc_id = ''s1'', doc_session_id = ''s1'', doc_customer_id = ''c1'', status = st,
      created_at = ''2025-12-31T10:00:00'', last_updated = ''2025-12-31T10:00:05'',
      initial_query = ''hello'',
      doc_conversation_history =
        turn_entries ''hello'' ''2025-12-31T10:00:03'' ''Hello! How can I help?'' ''2025-12-31T10:00:04'',
      escalated = False, summary = None, doc_domain = ''general''\<rparr>"

definition stored_globals :: "string \<Rightarrow> globals" where
  "stored_globals st =
     \<lparr>orders_collection = Some no_orders,
      cases_collection = Some [''s1'' \<mapsto> sample_case st],
      customers_collection = Some [''c1'' \<mapsto> sample_profile\<lparr>active_case_id := Some ''s1''\<rparr>]\<rparr>"

section \<open>Properties\<close>

subsection \<open>Strings and patterns\<close>











subsection \<open>One chat turn\<close>

lemma chat_turn_denied:
  assumes "domain_denied (intent_of (user_query request)) (domain request)"
  shows "chat_turn e request g cs cu c p k =
           (Inr (refusal (domain request)),
            g\<lparr>cases_collection := Some cs, customers_collection := Some cu\<rparr>, [])"
proof (cases "determine_intent_and_urgency (user_query request)")
  case (fields intent urgency ents)
  with assms show ?thesis by (simp add: chat_turn_def intent_of_def)
qed

lemma chat_turn_no_call:
  assumes "chat_turn e request g cs cu c p k = (res, g', [])"
  shows "g' = g\<lparr>cases_collection := Some cs, customers_collection := Some cu\<rparr>"
  using assms by (auto simp: chat_turn_def Let_def split: prod.splits if_splits sum.splits)

lemma chat_turn_calls:
  assumes "chat_turn e request g cs cu c p k = (res, g', calls)"
  shows "calls = [] \<or> (\<exists>h t. calls = [(h, t)])"
  using assms by (auto simp: chat_turn_def Let_def split: prod.splits if_splits sum.splits)

lemma chat_turn_failed_call:
  assumes "chat_turn e request g cs cu c p k = (res, g', [(h, t)])"
    and "send_message e h t = None"
    and "cs (session_id request) = Some c0"
  shows "\<exists>resp.
           res = Inr resp \<and> bot_response resp = apology \<and> case_status resp = status c \<and>
           case_id resp = Some (session_id request) \<and>
           g' = g\<lparr>cases_collection := Some (cs(session_id request \<mapsto>
                      c0\<lparr>doc_conversation_history := conversation_history request @
                            turn_entries (user_query request) (now e k) apology (now e (k + 1)),
                         last_updated := now e (k + 2),
                         status := status c,
                         escalated := True\<rparr>)),
                  customers_collection := Some cu\<rparr>"
  using assms
  by (auto simp: chat_turn_def Let_def persist_turn_def turn_entries_def manage_case_escalation_def
           split: prod.splits if_splits sum.splits)

lemma chat_turn_answered_call:
  assumes "chat_turn e request g cs cu c p k = (res, g', [(h, t)])"
    and "send_message e h t = Some reply"
    and "cs (session_id request) = Some c0"
    and "determine_intent_and_urgency (user_query request) = (intent, urgency, ents)"
    and "esc = manage_case_escalation (length (conversation_history request) div 2 + 1)
                 intent urgency (analyze_sentiment (user_query request)) (escalated c)"
    and "newly = (esc \<and> \<not> escalated c)"
  shows "\<exists>resp.
           res = Inr resp \<and> case_id resp = Some (session_id request) \<and>
           bot_response resp = (if newly then reply @ handoff_notice else reply) \<and>
           case_status resp = (if newly then ''escalated_to_human'' else status c) \<and>
           g' = g\<lparr>cases_collection := Some (cs(session_id request \<mapsto>
                      c0\<lparr>doc_conversation_history := conversation_history request @
                            turn_entries (user_query request) (now e k) (bot_response resp) (now e (k + 1)),
                         last_updated := now e (k + 2),
                         status := case_status resp,
                         escalated := esc\<rparr>)),
                  customers_collection := Some cu\<rparr>"
  using assms
  by (auto simp: chat_turn_def Let_def persist_turn_def turn_entries_def manage_case_escalation_def
           split: prod.splits if_splits sum.splits)

subsection \<open>The chat endpoint\<close>

lemma chat_endpoint_unavailable:
  assumes "cases_collection g = None \<or> customers_collection g = None"
  shows "chat_endpoint e request g = (Inl unavailable_503, g, [])"
  using assms by (auto simp: chat_endpoint_def split: option.splits)

lemma chat_endpoint_found:
  assumes "cases_collection g = Some cs" and "customers_collection g = Some cu"
    and "find_case cs (session_id request) (customer_id (customer_profile request)) = Some c"
  shows "chat_endpoint e request g =
           chat_turn e request g cs (snd (load_or_create_profile cu request)) c
             (fst (load_or_create_profile cu request)) 0"
  using assms by (simp add: chat_endpoint_def Let_def split: prod.splits)

lemma chat_endpoint_created:
  assumes "cases_collection g = Some cs" and "customers_collection g = Some cu"
    and "find_case cs (session_id request) (customer_id (customer_profile request)) = None"
    and "cs (session_id request) = None"
  shows "chat_endpoint e request g =
           chat_turn e request g (cs(session_id request \<mapsto> new_case e request))
             (set_active_case (snd (load_or_create_profile cu request))
                (customer_id (customer_profile request)) (session_id request))
             (new_case e request) (fst (load_or_create_profile cu request)) 2"
  using assms by (simp add: chat_endpoint_def Let_def split: prod.splits)

lemma chat_endpoint_collision:
  assumes "cases_collection g = Some cs" and "customers_collection g = Some cu"
    and "find_case cs (session_id request) (customer_id (customer_profile request)) = None"
    and "cs (session_id request) = Some taken"
  shows "chat_endpoint e request g =
           (Inl (DuplicateKeyError (session_id request)),
            g\<lparr>cases_collection := Some cs,
              customers_collection := Some (snd (load_or_create_profile cu request))\<rparr>, [])"
  using assms by (simp add: chat_endpoint_def Let_def split: prod.splits)

text \<open>A request that calls the model has loaded or inserted its case and then run the turn.\<close>

lemma chat_endpoint_call:
  assumes "chat_endpoint e request g = (res, g', [(h, t)])"
  shows "\<exists>cs cu c p k.
           chat_turn e request g cs cu c p k = (res, g', [(h, t)]) \<and>
           cs (session_id request) = Some c \<and>
           (\<forall>cid. cid \<noteq> session_id request \<longrightarrow> cs cid = case_of g cid) \<and>
           (case loaded_case g request of
              Some c0 \<Rightarrow> c = c0 \<and> k = 0
            | None \<Rightarrow> c = new_case e request \<and> k = 2)"
proof (cases "cases_collection g")
  case None
  with assms show ?thesis by (simp add: chat_endpoint_unavailable)
next
  case cs: (Some cs)
  show ?thesis
  proof (cases "customers_collection g")
    case None
    with assms show ?thesis by (simp add: chat_endpoint_unavailable)
  next
    case cu: (Some cu)
    show ?thesis
    proof (cases "find_case cs (session_id request) (customer_id (customer_profile request))")
      case (Some c)
      then have "cs (session_id request) = Some c"
        by (auto simp: find_case_def split: option.splits if_splits)
      with assms cs cu Some show ?thesis
        by (auto simp: chat_endpoint_found [OF cs cu Some] loaded_case_def case_of_def)
    next
      case None
      show ?thesis
      proof (cases "cs (session_id request)")
        case (Some taken)
        with assms cs cu None show ?thesis
          by (simp add: chat_endpoint_collision [OF cs cu None Some])
      next
        case free: None
        have "chat_turn e request g (cs(session_id request \<mapsto> new_case e request))
                (set_active_case (snd (load_or_create_profile cu request))
                   (customer_id (customer_profile request)) (session_id request))
                (new_case e request) (fst (load_or_create_profile cu request)) 2 = (res, g', [(h, t)])"
          using assms chat_endpoint_created [OF cs cu None free] by simp
        moreover have "(cs(session_id request \<mapsto> new_case e request)) (session_id request) = Some (new_case e request)"
          by simp
        moreover have "\<forall>cid. cid \<noteq> session_id request \<longrightarrow>
                         (cs(session_id request \<mapsto> new_case e request)) cid = case_of g cid"
          using cs by (simp add: case_of_def)
        moreover have "loaded_case g request = None"
          using cs None by (simp add: loaded_case_def)
        ultimately show ?thesis by (metis (mono_tags, lifting) option.simps(4))
      qed
    qed
  qed
qed

text \<open>
  Claim C5. When the call to the language model of a chat turn fails, the response
  carries the fixed apology, the stored case has its \<open>escalated\<close> flag set, whatever the
  escalation policy says, and its stored history is the history of the request followed
  by the user entry and the bot entry with the apology.
\<close>

theorem llm_failure_recovered:
  assumes "chat_endpoint e request g = (res, g', [(h, t)])"
    and "send_message e h t = None"
  shows "\<exists>resp c' t1 t2.
           res = Inr resp \<and> bot_response resp = apology \<and>
           case_of g' (session_id request) = Some c' \<and>
           escalated c' \<and>
           doc_conversation_history c' =
             conversation_history request @ turn_entries (user_query request) t1 apology t2"
proof -
  from chat_endpoint_call [OF assms(1)] obtain cs cu c p k where
    turn: "chat_turn e request g cs cu c p k = (res, g', [(h, t)])" and
    stored: "cs (session_id request) = Some c"
    by blast
  from chat_turn_failed_call [OF turn assms(2) stored] obtain resp where
    resp: "res = Inr resp" "bot_response resp = apology" and
    g': "g' = g\<lparr>cases_collection := Some (cs(session_id request \<mapsto>
                      c\<lparr>doc_conversation_history := conversation_history request @
                            turn_entries (user_query request) (now e k) apology (now e (k + 1)),
                         last_updated := now e (k + 2),
                         status := status c,
                         escalated := True\<rparr>)),
                  customers_collection := Some cu\<rparr>"
    by blast
  let ?c = "c\<lparr>doc_conversation_history := conversation_history request @
                            turn_entries (user_query request) (now e k) apology (now e (k + 1)),
                         last_updated := now e (k + 2),
                         status := status c,
                         escalated := True\<rparr>"
  have "case_of g' (session_id request) = Some ?c"
    by (simp add: g' case_of_def)
  moreover have "escalated ?c" by simp
  moreover have "doc_conversation_history ?c = conversation_history request @
                   turn_entries (user_query request) (now e k) apology (now e (k + 1))"
    by simp
  ultimately show ?thesis using resp by blast
qed

lemma add_examples_known:
  "prompts d \<noteq> None \<Longrightarrow> \<exists>prompts'. add_examples d kb prompts = Inr prompts'"
proof (induction kb arbitrary: prompts)
  case Nil
  show ?case by simp
next
  case (Cons qa kb)
  obtain q a where qa: "qa = (q, a)" by (cases qa)
  from Cons.prems obtain p where p: "prompts d = Some p" by auto
  define prompts1 where "prompts1 = prompts(d \<mapsto> p @ ''\<newline>Q: '' @ q @ ''\<newline>A: '' @ a)"
  have "prompts1 d \<noteq> None" by (simp add: prompts1_def)
  then have ih: "\<exists>prompts'. add_examples d kb prompts1 = Inr prompts'" by (rule Cons.IH)
  have "add_examples d (qa # kb) prompts = add_examples d kb prompts1"
    unfolding qa prompts1_def by (simp add: p)
  with ih show ?case by simp
qed

lemma add_examples_unknown:
  "prompts d = None \<Longrightarrow> kb \<noteq> [] \<Longrightarrow> add_examples d kb prompts = Inl (KeyError d)"
  by (cases kb) auto

lemma chat_turn_reaches_llm:
  assumes "\<not> domain_denied (intent_of (user_query request)) (domain request)"
    and "add_examples (domain request) (kb_get (domain_knowledge_bases e) (domain request))
           domain_prompts = Inr prompts"
  shows "\<exists>res g' h t. chat_turn e request g cs cu c p k = (res, g', [(h, t)])"
proof (cases "determine_intent_and_urgency (user_query request)")
  case (fields intent urgency ents)
  with assms show ?thesis by (simp add: chat_turn_def intent_of_def Let_def)
qed

lemma chat_turn_key_error:
  assumes "\<not> domain_denied (intent_of (user_query request)) (domain request)"
    and "add_examples (domain request) (kb_get (domain_knowledge_bases e) (domain request))
           domain_prompts = Inl err"
  shows "chat_turn e request g cs cu c p k =
           (Inl err, g\<lparr>cases_collection := Some cs, customers_collection := Some cu\<rparr>, [])"
proof (cases "determine_intent_and_urgency (user_query request)")
  case (fields intent urgency ents)
  with assms show ?thesis by (simp add: chat_turn_def intent_of_def Let_def)
qed

lemma chat_endpoint_is_turn:
  assumes "cases_collection g \<noteq> None" and "customers_collection g \<noteq> None"
    and "\<not> id_collision g request"
  shows "\<exists>cs cu c p k. chat_endpoint e request g = chat_turn e request g cs cu c p k"
proof -
  from assms obtain cs cu where cs: "cases_collection g = Some cs" and cu: "customers_collection g = Some cu"
    by auto
  show ?thesis
  proof (cases "find_case cs (session_id request) (customer_id (customer_profile request))")
    case (Some c)
    show ?thesis using chat_endpoint_found [OF cs cu Some] by blast
  next
    case None
    with assms(3) cs have "cs (session_id request) = None"
      by (simp add: id_collision_def loaded_case_def case_of_def)
    from chat_endpoint_created [OF cs cu None this] show ?thesis by blast
  qed
qed

lemma chat_endpoint_reaches_llm:
  assumes "cases_collection g \<noteq> None" and "customers_collection g \<noteq> None"
    and "\<not> id_collision g request"
    and "\<not> domain_denied (intent_of (user_query request)) (domain request)"
    and "kb_get (domain_knowledge_bases e) (domain request) = [] \<or> domain_prompts (domain request) \<noteq> None"
  shows "\<exists>res g' h t. chat_endpoint e request g = (res, g', [(h, t)])"
proof -
  have "\<exists>prompts. add_examples (domain request) (kb_get (domain_knowledge_bases e) (domain request))
           domain_prompts = Inr prompts"
    using assms(5) add_examples_known by (cases "kb_get (domain_knowledge_bases e) (domain request) = []") auto
  then obtain prompts where "add_examples (domain request) (kb_get (domain_knowledge_bases e) (domain request))
           domain_prompts = Inr prompts" ..
  from chat_turn_reaches_llm [OF assms(4) this] chat_endpoint_is_turn [OF assms(1-3)]
  show ?thesis by metis
qed

lemma intent_hello: "intent_of ''hello'' = ''greeting''"
  by code_simp

lemma intent_wifi: "intent_of ''my wifi is down'' = ''technical_support''"
  by code_simp

lemma intent_what: "intent_of ''what is this'' = ''general_inquiry''"
  by code_simp

lemma sample_call:
  "\<exists>res g' h t. chat_endpoint (sample_env default_knowledge_bases reply) (sample_request ''general'' ''hello'' hist)
      fresh_globals = (res, g', [(h, t)])"
proof (rule chat_endpoint_reaches_llm)
  show "cases_collection fresh_globals \<noteq> None" by (simp add: fresh_globals_def)
  show "customers_collection fresh_globals \<noteq> None" by (simp add: fresh_globals_def)
  show "\<not> id_collision fresh_globals (sample_request ''general'' ''hello'' hist)"
    by (simp add: id_collision_def case_of_def fresh_globals_def)
  show "\<not> domain_denied (intent_of (user_query (sample_request ''general'' ''hello'' hist)))
          (domain (sample_request ''general'' ''hello'' hist))"
    by (simp add: sample_request_def intent_hello domain_denied_def permitted_intents_def domain_map_def)
  show "kb_get (domain_knowledge_bases (sample_env default_knowledge_bases reply))
          (domain (sample_request ''general'' ''hello'' hist)) = [] \<or>
        domain_prompts (domain (sample_request ''general'' ''hello'' hist)) \<noteq> None"
    by (simp add: sample_request_def domain_prompts_def)
qed

text \<open>
  A first greeting of a new customer, with a language model that fails.
\<close>

theorem llm_failure_recovered_witness:
  "\<exists>resp c' t1 t2.
     fst (chat_endpoint (sample_env default_knowledge_bases None) (sample_request ''general'' ''hello'' [])
            fresh_globals) = Inr resp \<and>
     bot_response resp = apology \<and>
     case_of (fst (snd (chat_endpoint (sample_env default_knowledge_bases None)
                          (sample_request ''general'' ''hello'' []) fresh_globals))) ''s1'' = Some c' \<and>
     escalated c' \<and>
     doc_conversation_history c' = [] @ turn_entries ''hello'' t1 apology t2"
proof -
  obtain res g' h t where
    out: "chat_endpoint (sample_env default_knowledge_bases None) (sample_request ''general'' ''hello'' [])
            fresh_globals = (res, g', [(h, t)])"
    using sample_call by blast
  have fail: "send_message (sample_env default_knowledge_bases None) h t = None"
    by (simp add: sample_env_def)
  have "\<exists>resp c' t1 t2. res = Inr resp \<and> bot_response resp = apology \<and>
          case_of g' ''s1'' = Some c' \<and> escalated c' \<and>
          doc_conversation_history c' = [] @ turn_entries ''hello'' t1 apology t2"
    using llm_failure_recovered [OF out fail] by (simp add: sample_request_def)
  then show ?thesis unfolding out by simp
qed

subsection \<open>Refused turns\<close>

lemma globals_same:
  assumes "cases_collection g = Some cs" and "customers_collection g = Some cu"
  shows "g\<lparr>cases_collection := Some cs, customers_collection := Some cu\<rparr> = g"
  using assms by (cases g) simp

lemma load_other_profiles:
  "cust \<noteq> customer_id (customer_profile request) \<Longrightarrow>
     snd (load_or_create_profile cu request) cust = cu cust"
  by (simp add: load_or_create_profile_def Let_def split: option.splits)

lemma load_own_profile:
  "snd (load_or_create_profile cu request) (customer_id (customer_profile request)) =
     Some (case cu (customer_id (customer_profile request)) of
             Some p \<Rightarrow> p | None \<Rightarrow> customer_profile request)"
  by (simp add: load_or_create_profile_def Let_def split: option.splits)

text \<open>
  Claim C1, amended. A chat request that the domain restriction refuses, with both
  collections available and no clash of the session id with a case of another customer,
  gets the fixed refusal (status \<open>closed\<close>, no case id, no suggestion, sentiment
  \<open>unanswered\<close>) and calls no model. The update that ends a turn does not run: every
  stored case is still stored as it was, and so is the profile of every other customer;
  when the profile of the customer and the case of the session are both stored already,
  the collections are unchanged as a whole. The steps that load or create the profile and
  the case run before the restriction: a missing profile is inserted, and a missing case is
  inserted as a new open case, with \<open>active_case_id\<close> of the profile set to it.
\<close>

theorem denied_turn_effects:
  assumes "cases_collection g \<noteq> None" and "customers_collection g \<noteq> None"
    and "\<not> id_collision g request"
    and "domain_denied (intent_of (user_query request)) (domain request)"
    and "chat_endpoint e request g = (res, g', calls)"
  shows "res = Inr \<lparr>bot_response = refusal_text (domain request), case_status = ''closed'',
                    case_id = None, faq_suggestion = None,
                    sentiment_detected = Some ''unanswered''\<rparr> \<and>
         calls = [] \<and>
         (\<forall>cid c. case_of g cid = Some c \<longrightarrow> case_of g' cid = Some c) \<and>
         (\<forall>cust. cust \<noteq> customer_id (customer_profile request) \<longrightarrow>
                  profile_of g' cust = profile_of g cust) \<and>
         (loaded_case g request \<noteq> None \<and>
          profile_of g (customer_id (customer_profile request)) \<noteq> None \<longrightarrow> g' = g) \<and>
         (loaded_case g request \<noteq> None \<and>
          profile_of g (customer_id (customer_profile request)) = None \<longrightarrow>
            profile_of g' (customer_id (customer_profile request)) = Some (customer_profile request)) \<and>
         (loaded_case g request = None \<longrightarrow>
            case_of g' (session_id request) = Some (new_case e request) \<and>
            profile_of g' (customer_id (customer_profile request)) =
              Some ((case profile_of g (customer_id (customer_profile request)) of
                       Some p \<Rightarrow> p | None \<Rightarrow> customer_profile request)
                    \<lparr>active_case_id := Some (session_id request)\<rparr>))"
proof -
  let ?cust = "customer_id (customer_profile request)"
  let ?sid = "session_id request"
  from assms(1,2) obtain cs cu where
    cs: "cases_collection g = Some cs" and cu: "customers_collection g = Some cu"
    by auto
  let ?cu1 = "snd (load_or_create_profile cu request)"
  show ?thesis
  proof (cases "find_case cs ?sid ?cust")
    case (Some c)
    have out: "(res, g', calls) =
                 (Inr (refusal (domain request)),
                  g\<lparr>cases_collection := Some cs, customers_collection := Some ?cu1\<rparr>, [])"
      using assms(5) chat_endpoint_found [OF cs cu Some] chat_turn_denied [OF assms(4)] by simp
    have loaded: "loaded_case g request = Some c"
      using cs Some by (simp add: loaded_case_def)
    have same: "cu ?cust \<noteq> None \<Longrightarrow> g' = g"
      using out globals_same [OF cs cu] by (auto simp: load_or_create_profile_def)
    have own: "profile_of g' ?cust = Some (case cu ?cust of Some p \<Rightarrow> p | None \<Rightarrow> customer_profile request)"
      using out by (simp add: profile_of_def load_own_profile)
    have others: "\<forall>cust. cust \<noteq> ?cust \<longrightarrow> profile_of g' cust = profile_of g cust"
      using out cu by (simp add: profile_of_def load_other_profiles)
    have cases_same: "\<forall>cid. case_of g' cid = case_of g cid"
      using out cs by (simp add: case_of_def)
    from out loaded same own others cases_same cu show ?thesis
      by (simp add: refusal_def profile_of_def)
  next
    case None
    with assms(3) cs have free: "cs ?sid = None"
      by (simp add: id_collision_def loaded_case_def case_of_def)
    have out: "(res, g', calls) =
                 (Inr (refusal (domain request)),
                  g\<lparr>cases_collection := Some (cs(?sid \<mapsto> new_case e request)),
                    customers_collection := Some (set_active_case ?cu1 ?cust ?sid)\<rparr>, [])"
      using assms(5) chat_endpoint_created [OF cs cu None free] chat_turn_denied [OF assms(4)] by simp
    have loaded: "loaded_case g request = None"
      using cs None by (simp add: loaded_case_def)
    have own: "profile_of g' ?cust =
                 Some ((case cu ?cust of Some p \<Rightarrow> p | None \<Rightarrow> customer_profile request)
                       \<lparr>active_case_id := Some ?sid\<rparr>)"
      using out by (simp add: profile_of_def set_active_case_def load_own_profile)
    have others: "\<forall>cust. cust \<noteq> ?cust \<longrightarrow> profile_of g' cust = profile_of g cust"
      using out cu by (simp add: profile_of_def set_active_case_def load_own_profile load_other_profiles)
    have kept: "\<forall>cid c. case_of g cid = Some c \<longrightarrow> case_of g' cid = Some c"
      using out cs free by (auto simp: case_of_def)
    have new: "case_of g' ?sid = Some (new_case e request)"
      using out by (simp add: case_of_def)
    from out loaded own others kept new cu show ?thesis
      by (simp add: refusal_def profile_of_def)
  qed
qed

subsection \<open>Stored history\<close>

lemma chat_turn_call_history:
  assumes "chat_turn e request g cs cu c p k = (res, g', [(h, t)])"
    and "cs (session_id request) = Some c0"
  shows "\<exists>resp st esc.
           res = Inr resp \<and> case_id resp = Some (session_id request) \<and>
           g' = g\<lparr>cases_collection := Some (cs(session_id request \<mapsto>
                      c0\<lparr>doc_conversation_history := conversation_history request @
                            turn_entries (user_query request) (now e k) (bot_response resp) (now e (k + 1)),
                         last_updated := now e (k + 2),
                         status := st,
                         escalated := esc\<rparr>)),
                  customers_collection := Some cu\<rparr>"
proof (cases "send_message e h t")
  case None
  from chat_turn_failed_call [OF assms(1) None assms(2)] show ?thesis by metis
next
  case (Some reply)
  obtain intent urgency ents where
    "determine_intent_and_urgency (user_query request) = (intent, urgency, ents)"
    by (cases "determine_intent_and_urgency (user_query request)")
  from chat_turn_answered_call [OF assms(1) Some assms(2) this refl refl] show ?thesis by metis
qed

lemma chat_endpoint_no_call_cases:
  assumes "chat_endpoint e request g = (res, g', [])"
    and "loaded_case g request = Some c"
  shows "case_of g' = case_of g"
proof -
  from assms(2) obtain cs where cs: "cases_collection g = Some cs"
    and found: "find_case cs (session_id request) (customer_id (customer_profile request)) = Some c"
    by (auto simp: loaded_case_def split: option.splits)
  show ?thesis
  proof (cases "customers_collection g")
    case None
    with assms(1) show ?thesis by (simp add: chat_endpoint_unavailable)
  next
    case (Some cu)
    from assms(1) chat_endpoint_found [OF cs Some found]
    have "chat_turn e request g cs (snd (load_or_create_profile cu request)) c
            (fst (load_or_create_profile cu request)) 0 = (res, g', [])" by simp
    from chat_turn_no_call [OF this] cs show ?thesis
      by (simp add: case_of_def fun_eq_iff)
  qed
qed

text \<open>
  Claim C4, amended. A chat turn that reaches the call of the language model stores, as
  the history of the case, the conversation history of the request followed by exactly
  two entries, the user entry with the query and the bot entry with the text of the
  response. So the stored history grows by exactly these two entries when the request
  carries the history that is stored, and is overwritten otherwise. The other cases are
  left alone.
\<close>

theorem turn_stores_request_history:
  assumes "chat_endpoint e request g = (res, g', calls)" and "calls \<noteq> []"
  shows "\<exists>resp c' t1 t2.
           res = Inr resp \<and>
           case_of g' (session_id request) = Some c' \<and>
           doc_conversation_history c' =
             conversation_history request @
             turn_entries (user_query request) t1 (bot_response resp) t2 \<and>
           (\<forall>c. loaded_case g request = Some c \<and>
                 conversation_history request = doc_conversation_history c \<longrightarrow>
                 doc_conversation_history c' =
                   doc_conversation_history c @
                   turn_entries (user_query request) t1 (bot_response resp) t2) \<and>
           (\<forall>cid. cid \<noteq> session_id request \<longrightarrow> case_of g' cid = case_of g cid)"
proof -
  have "\<exists>cs cu c p k. chat_endpoint e request g = chat_turn e request g cs cu c p k"
  proof (cases "cases_collection g = None \<or> customers_collection g = None")
    case True
    with assms show ?thesis by (simp add: chat_endpoint_unavailable)
  next
    case False
    then obtain cs cu where cs: "cases_collection g = Some cs" and cu: "customers_collection g = Some cu"
      by auto
    show ?thesis
    proof (cases "id_collision g request")
      case True
      then obtain taken where "find_case cs (session_id request) (customer_id (customer_profile request)) = None"
        and "cs (session_id request) = Some taken"
        using cs by (auto simp: id_collision_def loaded_case_def case_of_def)
      from chat_endpoint_collision [OF cs cu this] assms show ?thesis by simp
    next
      case nocoll: False
      show ?thesis using chat_endpoint_is_turn [of g request e] cs cu nocoll by simp
    qed
  qed
  with assms chat_turn_calls obtain h t where call: "calls = [(h, t)]" by metis
  from chat_endpoint_call [OF assms(1) [unfolded call]] obtain cs cu c p k where
    turn: "chat_turn e request g cs cu c p k = (res, g', [(h, t)])" and
    stored: "cs (session_id request) = Some c" and
    others: "\<forall>cid. cid \<noteq> session_id request \<longrightarrow> cs cid = case_of g cid"
    by blast
  from chat_turn_call_history [OF turn stored] obtain resp st esc where
    resp: "res = Inr resp" and
    g': "g' = g\<lparr>cases_collection := Some (cs(session_id request \<mapsto>
                      c\<lparr>doc_conversation_history := conversation_history request @
                            turn_entries (user_query request) (now e k) (bot_response resp) (now e (k + 1)),
                         last_updated := now e (k + 2),
                         status := st,
                         escalated := esc\<rparr>)),
                  customers_collection := Some cu\<rparr>"
    by blast
  let ?c = "c\<lparr>doc_conversation_history := conversation_history request @
                            turn_entries (user_query request) (now e k) (bot_response resp) (now e (k + 1)),
                         last_updated := now e (k + 2),
                         status := st,
                         escalated := esc\<rparr>"
  have 1: "case_of g' (session_id request) = Some ?c"
    by (simp add: g' case_of_def)
  have 2: "doc_conversation_history ?c = conversation_history request @
             turn_entries (user_query request) (now e k) (bot_response resp) (now e (k + 1))"
    by simp
  have 3: "\<forall>cid. cid \<noteq> session_id request \<longrightarrow> case_of g' cid = case_of g cid"
    using others by (simp add: g' case_of_def)
  from resp 1 2 3 show ?thesis by (metis (no_types, lifting))
qed

text \<open>
  Claim C3, amended. \<^verbatim>\<open>chat_endpoint\<close> does not look at the status of the case. For a
  request whose loaded case is \<open>resolved\<close> or \<open>closed\<close>: a turn that the domain
  restriction refuses calls no model; a turn that calls no model leaves every stored case
  as it was; a turn that calls the model is processed like any other and stores the history
  of the request followed by the two new entries. It is the resolution of such a case that
  does nothing: it answers that the case is already resolved and changes no collection.
\<close>

theorem terminal_case_chat:
  assumes "customers_collection g \<noteq> None"
    and "loaded_case g request = Some c"
    and "status c = ''resolved'' \<or> status c = ''closed''"
    and "chat_endpoint e request g = (res, g', calls)"
  shows "(domain_denied (intent_of (user_query request)) (domain request) \<longrightarrow>
            res = Inr (refusal (domain request)) \<and> calls = []) \<and>
         (calls = [] \<longrightarrow> case_of g' = case_of g) \<and>
         (calls \<noteq> [] \<longrightarrow>
            (\<exists>resp c' t1 t2.
               res = Inr resp \<and> case_id resp = Some (session_id request) \<and>
               case_of g' (session_id request) = Some c' \<and>
               doc_conversation_history c' =
                 conversation_history request @
                 turn_entries (user_query request) t1 (bot_response resp) t2)) \<and>
         resolve_case_endpoint e (session_id request) g =
           (Inr (''Case '' @ session_id request @ '' is already resolved.''), g)"
proof -
  from assms(2) obtain cs where cs: "cases_collection g = Some cs"
    and found: "find_case cs (session_id request) (customer_id (customer_profile request)) = Some c"
    by (auto simp: loaded_case_def split: option.splits)
  from assms(1) obtain cu where cu: "customers_collection g = Some cu" by auto
  from found have stored: "cs (session_id request) = Some c"
    by (auto simp: find_case_def split: option.splits if_splits)
  let ?cu1 = "snd (load_or_create_profile cu request)"
  let ?p = "fst (load_or_create_profile cu request)"
  have turn: "chat_turn e request g cs ?cu1 c ?p 0 = (res, g', calls)"
    using assms(4) chat_endpoint_found [OF cs cu found] by simp
  have a: "domain_denied (intent_of (user_query request)) (domain request) \<longrightarrow>
             res = Inr (refusal (domain request)) \<and> calls = []"
    using turn chat_turn_denied [of request e g cs ?cu1 c ?p 0] by auto
  have b: "calls = [] \<longrightarrow> case_of g' = case_of g"
    using assms(4) chat_endpoint_no_call_cases [OF _ assms(2)] by blast
  have c: "calls \<noteq> [] \<longrightarrow>
            (\<exists>resp c' t1 t2.
               res = Inr resp \<and> case_id resp = Some (session_id request) \<and>
               case_of g' (session_id request) = Some c' \<and>
               doc_conversation_history c' =
                 conversation_history request @
                 turn_entries (user_query request) t1 (bot_response resp) t2)"
  proof
    assume "calls \<noteq> []"
    with chat_turn_calls [OF turn] obtain h t where call: "calls = [(h, t)]" by auto
    from chat_turn_call_history [OF turn [unfolded call] stored] obtain resp st esc where
      resp: "res = Inr resp" "case_id resp = Some (session_id request)" and
      g': "g' = g\<lparr>cases_collection := Some (cs(session_id request \<mapsto>
                      c\<lparr>doc_conversation_history := conversation_history request @
                            turn_entries (user_query request) (now e 0) (bot_response resp) (now e (0 + 1)),
                         last_updated := now e (0 + 2),
                         status := st,
                         escalated := esc\<rparr>)),
                  customers_collection := Some ?cu1\<rparr>"
      by blast
    let ?c = "c\<lparr>doc_conversation_history := conversation_history request @
                            turn_entries (user_query request) (now e 0) (bot_response resp) (now e (0 + 1)),
                         last_updated := now e (0 + 2),
                         status := st,
                         escalated := esc\<rparr>"
    have 1: "case_of g' (session_id request) = Some ?c"
      by (simp add: g' case_of_def)
    have 2: "doc_conversation_history ?c = conversation_history request @
             turn_entries (user_query request) (now e 0) (bot_response resp) (now e (0 + 1))"
      by simp
    from resp 1 2 show "\<exists>resp c' t1 t2.
               res = Inr resp \<and> case_id resp = Some (session_id request) \<and>
               case_of g' (session_id request) = Some c' \<and>
               doc_conversation_history c' =
                 conversation_history request @
                 turn_entries (user_query request) t1 (bot_response resp) t2"
      by blast
  qed
  have d: "resolve_case_endpoint e (session_id request) g =
           (Inr (''Case '' @ session_id request @ '' is already resolved.''), g)"
    using cs cu stored assms(3) by (auto simp: resolve_case_endpoint_def)
  from a b c d show ?thesis by blast
qed

subsection \<open>Escalation\<close>

lemma call_of_new_case:
  assumes "chat_endpoint e request g = (res, g', [(h, t)])"
    and "loaded_case g request = None"
  shows "\<exists>cs cu p. chat_turn e request g cs cu (new_case e request) p 2 = (res, g', [(h, t)]) \<and>
                   cs (session_id request) = Some (new_case e request)"
  using chat_endpoint_call [OF assms(1)] assms(2) by auto

text \<open>The flag that the turn hands to the escalation policy when the model has answered.\<close>

lemma answered_turn_stored:
  assumes "chat_endpoint e request g = (res, g', [(h, t)])"
    and "send_message e h t = Some reply"
    and "determine_intent_and_urgency (user_query request) = (intent, urgency, ents)"
    and "c = (case loaded_case g request of Some c0 \<Rightarrow> c0 | None \<Rightarrow> new_case e request)"
    and "esc = manage_case_escalation (length (conversation_history request) div 2 + 1)
                 intent urgency (analyze_sentiment (user_query request)) (escalated c)"
    and "newly = (esc \<and> \<not> escalated c)"
  shows "\<exists>c' t1 t2.
           case_of g' (session_id request) = Some c' \<and>
           escalated c' = esc \<and>
           status c' = (if newly then ''escalated_to_human'' else status c) \<and>
           doc_conversation_history c' = conversation_history request @
              turn_entries (user_query request) t1 (if newly then reply @ handoff_notice else reply) t2"
proof -
  from chat_endpoint_call [OF assms(1)] obtain cs cu c1 p k where
    turn1: "chat_turn e request g cs cu c1 p k = (res, g', [(h, t)])" and
    stored1: "cs (session_id request) = Some c1" and
    c1: "case loaded_case g request of Some c0 \<Rightarrow> c1 = c0 \<and> k = 0
         | None \<Rightarrow> c1 = new_case e request \<and> k = 2"
    by blast
  from c1 assms(4) have "c1 = c" by (cases "loaded_case g request") simp_all
  with turn1 stored1 have
    turn: "chat_turn e request g cs cu c p k = (res, g', [(h, t)])" and
    stored: "cs (session_id request) = Some c"
    by simp_all
  from chat_turn_answered_call [OF turn assms(2) stored assms(3) assms(5) assms(6)]
  obtain resp where all: "res = Inr resp \<and>
           case_id resp = Some (session_id request) \<and>
           bot_response resp = (if newly then reply @ handoff_notice else reply) \<and>
           case_status resp = (if newly then ''escalated_to_human'' else status c) \<and>
           g' = g\<lparr>cases_collection := Some (cs(session_id request \<mapsto>
                      c\<lparr>doc_conversation_history := conversation_history request @
                            turn_entries (user_query request) (now e k) (bot_response resp) (now e (k + 1)),
                         last_updated := now e (k + 2),
                         status := case_status resp,
                         escalated := esc\<rparr>)),
                  customers_collection := Some cu\<rparr>" ..
  note bot = all [THEN conjunct2, THEN conjunct2, THEN conjunct1]
  note st = all [THEN conjunct2, THEN conjunct2, THEN conjunct2, THEN conjunct1]
  note g' = all [THEN conjunct2, THEN conjunct2, THEN conjunct2, THEN conjunct2]
  let ?c = "c\<lparr>doc_conversation_history := conversation_history request @
                            turn_entries (user_query request) (now e k) (bot_response resp) (now e (k + 1)),
                         last_updated := now e (k + 2),
                         status := case_status resp,
                         escalated := esc\<rparr>"
  have 1: "case_of g' (session_id request) = Some ?c" by (simp add: g' case_of_def)
  have 2: "escalated ?c = esc" by simp
  have 3: "status ?c = (if newly then ''escalated_to_human'' else status c)" by (simp add: st)
  have 4: "doc_conversation_history ?c = conversation_history request @
              turn_entries (user_query request) (now e k) (if newly then reply @ handoff_notice else reply) (now e (k + 1))"
    by (simp add: bot)
  show ?thesis
  proof (intro exI conjI)
    show "case_of g' (session_id request) = Some ?c" by (rule 1)
    show "escalated ?c = esc" by (rule 2)
    show "status ?c = (if newly then ''escalated_to_human'' else status c)" by (rule 3)
    show "doc_conversation_history ?c = conversation_history request @
              turn_entries (user_query request) (now e k) (if newly then reply @ handoff_notice else reply) (now e (k + 1))"
      by (rule 4)
  qed
qed

text \<open>
  Claim C6. The escalation policy answers true exactly when the prior flag is set, or
  urgency is \<open>high\<close> and sentiment \<open>frustrated\<close>, or the turn is above 3 and
  sentiment \<open>frustrated\<close>, or the intent is one of the five listed ones and the turn is
  above 2. On a turn that the model has answered, the flag stored for the case is the
  answer of the policy for the turn number \<open>length history div 2 + 1\<close>, the history being
  the one of the request, and for the flag of the loaded case (false for a new case).
\<close>

theorem escalation_policy:
  "manage_case_escalation current_turn intent urgency sentiment escalated_in_session =
     (escalated_in_session
      \<or> (urgency = ''high'' \<and> sentiment = ''frustrated'')
      \<or> (current_turn > 3 \<and> sentiment = ''frustrated'')
      \<or> (intent \<in> {''technical_support'', ''billing_inquiry'', ''finance_query'',
                      ''travel_hospitality_query'', ''order_status''} \<and> current_turn > 2))
   \<and> (chat_endpoint e request g = (res, g', [(h, t)]) \<longrightarrow>
      send_message e h t = Some reply \<longrightarrow>
      determine_intent_and_urgency (user_query request) = (intent', urgency', ents) \<longrightarrow>
        map_option escalated (case_of g' (session_id request)) =
          Some (manage_case_escalation (length (conversation_history request) div 2 + 1)
                  intent' urgency' (analyze_sentiment (user_query request))
                  (case loaded_case g request of Some c \<Rightarrow> escalated c | None \<Rightarrow> False)))"
proof -
  have policy: "manage_case_escalation current_turn intent urgency sentiment escalated_in_session =
     (escalated_in_session
      \<or> (urgency = ''high'' \<and> sentiment = ''frustrated'')
      \<or> (current_turn > 3 \<and> sentiment = ''frustrated'')
      \<or> (intent \<in> {''technical_support'', ''billing_inquiry'', ''finance_query'',
                      ''travel_hospitality_query'', ''order_status''} \<and> current_turn > 2))"
    by (simp add: manage_case_escalation_def escalating_intents_def)
  have turn: "map_option escalated (case_of g' (session_id request)) =
          Some (manage_case_escalation (length (conversation_history request) div 2 + 1)
                  intent' urgency' (analyze_sentiment (user_query request))
                  (case loaded_case g request of Some c \<Rightarrow> escalated c | None \<Rightarrow> False))"
    if "chat_endpoint e request g = (res, g', [(h, t)])"
      and "send_message e h t = Some reply"
      and "determine_intent_and_urgency (user_query request) = (intent', urgency', ents)"
  proof -
    from answered_turn_stored [OF that refl refl refl] obtain c' where
      "case_of g' (session_id request) = Some c'" and
      "escalated c' = manage_case_escalation (length (conversation_history request) div 2 + 1)
                   intent' urgency' (analyze_sentiment (user_query request))
                   (escalated (case loaded_case g request of Some c0 \<Rightarrow> c0 | None \<Rightarrow> new_case e request))"
      by blast
    moreover have "escalated (case loaded_case g request of Some c0 \<Rightarrow> c0 | None \<Rightarrow> new_case e request)
                   = (case loaded_case g request of Some c \<Rightarrow> escalated c | None \<Rightarrow> False)"
      by (simp add: new_case_def split: option.splits)
    ultimately show ?thesis by simp
  qed
  show ?thesis
  proof (intro conjI impI)
    show "manage_case_escalation current_turn intent urgency sentiment escalated_in_session =
     (escalated_in_session
      \<or> (urgency = ''high'' \<and> sentiment = ''frustrated'')
      \<or> (current_turn > 3 \<and> sentiment = ''frustrated'')
      \<or> (intent \<in> {''technical_support'', ''billing_inquiry'', ''finance_query'',
                      ''travel_hospitality_query'', ''order_status''} \<and> current_turn > 2))"
      by (rule policy)
  next
    assume "chat_endpoint e request g = (res, g', [(h, t)])"
      and "send_message e h t = Some reply"
      and "determine_intent_and_urgency (user_query request) = (intent', urgency', ents)"
    then show "map_option escalated (case_of g' (session_id request)) =
          Some (manage_case_escalation (length (conversation_history request) div 2 + 1)
                  intent' urgency' (analyze_sentiment (user_query request))
                  (case loaded_case g request of Some c \<Rightarrow> escalated c | None \<Rightarrow> False))"
      by (rule turn)
  qed
qed

subsection \<open>Order lookup and knowledge base\<close>










subsection \<open>Sample requests\<close>

lemma fresh_cases: "cases_collection fresh_globals = Some Map.empty"
  by (simp add: fresh_globals_def)

lemma fresh_customers: "customers_collection fresh_globals = Some Map.empty"
  by (simp add: fresh_globals_def)

lemma stored_cases: "cases_collection (stored_globals st) = Some [''s1'' \<mapsto> sample_case st]"
  by (simp add: stored_globals_def)

lemma stored_customers:
  "customers_collection (stored_globals st) = Some [''c1'' \<mapsto> sample_profile\<lparr>active_case_id := Some ''s1''\<rparr>]"
  by (simp add: stored_globals_def)

lemma sample_request_fields:
  "user_query (sample_request d q hist) = q"
  "session_id (sample_request d q hist) = ''s1''"
  "customer_id (customer_profile (sample_request d q hist)) = ''c1''"
  "customer_profile (sample_request d q hist) = sample_profile"
  "customer_id sample_profile = ''c1''"
  "conversation_history (sample_request d q hist) = hist"
  "domain (sample_request d q hist) = d"
  by (simp_all add: sample_request_def sample_profile_def)

lemma stored_loaded: "loaded_case (stored_globals st) (sample_request d q hist) = Some (sample_case st)"
  by (simp add: loaded_case_def stored_cases find_case_def sample_request_fields sample_case_def)

lemma fresh_loaded: "loaded_case fresh_globals (sample_request d q hist) = None"
  by (simp add: loaded_case_def fresh_cases find_case_def)

lemma fresh_find:
  "find_case Map.empty (session_id (sample_request d q hist))
     (customer_id (customer_profile (sample_request d q hist))) = None"
  by (simp add: find_case_def)

lemma wifi_denied_in_finance:
  "domain_denied (intent_of (user_query (sample_request ''finance'' ''my wifi is down'' hist)))
     (domain (sample_request ''finance'' ''my wifi is down'' hist))"
  by (simp add: sample_request_fields intent_wifi domain_denied_def permitted_intents_def domain_map_def)

lemma stored_call:
  "\<exists>res g' h t. chat_endpoint (sample_env default_knowledge_bases reply) (sample_request ''general'' ''hello'' hist)
      (stored_globals st) = (res, g', [(h, t)])"
proof (rule chat_endpoint_reaches_llm)
  show "cases_collection (stored_globals st) \<noteq> None" by (simp add: stored_cases)
  show "customers_collection (stored_globals st) \<noteq> None" by (simp add: stored_customers)
  show "\<not> id_collision (stored_globals st) (sample_request ''general'' ''hello'' hist)"
    by (simp add: id_collision_def stored_loaded)
  show "\<not> domain_denied (intent_of (user_query (sample_request ''general'' ''hello'' hist)))
          (domain (sample_request ''general'' ''hello'' hist))"
    by (simp add: sample_request_fields intent_hello domain_denied_def permitted_intents_def domain_map_def)
  show "kb_get (domain_knowledge_bases (sample_env default_knowledge_bases reply))
          (domain (sample_request ''general'' ''hello'' hist)) = [] \<or>
        domain_prompts (domain (sample_request ''general'' ''hello'' hist)) \<noteq> None"
    by (simp add: sample_request_fields domain_prompts_def)
qed

text \<open>
  Claim C1 as stated fails on the first request of a new customer: domain \<open>finance\<close>
  with a query of intent \<open>technical_support\<close> is refused, and afterwards a case and a
  profile are stored that were not stored before.
\<close>

theorem denied_turn_creates_records:
  "domain_denied (intent_of ''my wifi is down'') ''finance'' \<and>
   case_of fresh_globals ''s1'' = None \<and>
   profile_of fresh_globals ''c1'' = None \<and>
   fst (chat_endpoint (sample_env default_knowledge_bases None)
          (sample_request ''finance'' ''my wifi is down'' []) fresh_globals) = Inr (refusal ''finance'') \<and>
   case_of (fst (snd (chat_endpoint (sample_env default_knowledge_bases None)
                        (sample_request ''finance'' ''my wifi is down'' []) fresh_globals))) ''s1'' =
     Some (new_case (sample_env default_knowledge_bases None)
             (sample_request ''finance'' ''my wifi is down'' [])) \<and>
   profile_of (fst (snd (chat_endpoint (sample_env default_knowledge_bases None)
                           (sample_request ''finance'' ''my wifi is down'' []) fresh_globals))) ''c1'' =
     Some (sample_profile\<lparr>active_case_id := Some ''s1''\<rparr>)"
proof -
  let ?E = "sample_env default_knowledge_bases None"
  let ?R = "sample_request ''finance'' ''my wifi is down'' []"
  have out: "chat_endpoint ?E ?R fresh_globals =
          (Inr (refusal (domain ?R)),
           fresh_globals\<lparr>cases_collection := Some [session_id ?R \<mapsto> new_case ?E ?R],
             customers_collection :=
               Some (set_active_case (snd (load_or_create_profile Map.empty ?R))
                       (customer_id (customer_profile ?R)) (session_id ?R))\<rparr>, [])"
    using chat_endpoint_created [OF fresh_cases fresh_customers fresh_find]
      chat_turn_denied [OF wifi_denied_in_finance]
    by simp
  have 1: "domain_denied (intent_of ''my wifi is down'') ''finance''"
    using wifi_denied_in_finance [of "[]"] by (simp add: sample_request_fields)
  have 2: "case_of fresh_globals ''s1'' = None" by (simp add: case_of_def fresh_cases)
  have 3: "profile_of fresh_globals ''c1'' = None" by (simp add: profile_of_def fresh_customers)
  have 4: "fst (chat_endpoint ?E ?R fresh_globals) = Inr (refusal ''finance'')"
    by (simp add: out sample_request_fields)
  have 5: "case_of (fst (snd (chat_endpoint ?E ?R fresh_globals))) ''s1'' = Some (new_case ?E ?R)"
    by (simp add: out case_of_def sample_request_fields)
  have 6: "profile_of (fst (snd (chat_endpoint ?E ?R fresh_globals))) ''c1'' =
             Some (sample_profile\<lparr>active_case_id := Some ''s1''\<rparr>)"
    by (simp add: out profile_of_def sample_request_fields set_active_case_def load_or_create_profile_def)
  from 1 2 3 4 5 6 show ?thesis by (intro conjI)
qed

text \<open>
  The refused request on collections that hold the profile and the case (nothing
  changes), and on empty collections (the case is inserted).
\<close>

theorem denied_turn_effects_witness:
  "cases_collection (stored_globals ''open'') \<noteq> None \<and>
   customers_collection (stored_globals ''open'') \<noteq> None \<and>
   \<not> id_collision (stored_globals ''open'') (sample_request ''finance'' ''my wifi is down'' []) \<and>
   domain_denied (intent_of ''my wifi is down'') ''finance'' \<and>
   fst (chat_endpoint (sample_env default_knowledge_bases None)
          (sample_request ''finance'' ''my wifi is down'' []) (stored_globals ''open'')) =
     Inr \<lparr>bot_response = refusal_text ''finance'', case_status = ''closed'', case_id = None,
          faq_suggestion = None, sentiment_detected = Some ''unanswered''\<rparr> \<and>
   fst (snd (chat_endpoint (sample_env default_knowledge_bases None)
               (sample_request ''finance'' ''my wifi is down'' []) (stored_globals ''open''))) =
     stored_globals ''open'' \<and>
   loaded_case fresh_globals (sample_request ''finance'' ''my wifi is down'' []) = None \<and>
   case_of (fst (snd (chat_endpoint (sample_env default_knowledge_bases None)
                        (sample_request ''finance'' ''my wifi is down'' []) fresh_globals))) ''s1'' =
     Some (new_case (sample_env default_knowledge_bases None)
             (sample_request ''finance'' ''my wifi is down'' []))"
proof -
  let ?E = "sample_env default_knowledge_bases None"
  let ?R = "sample_request ''finance'' ''my wifi is down'' []"
  let ?G = "stored_globals ''open''"
  have 1: "cases_collection ?G \<noteq> None" by (simp add: stored_cases)
  have 2: "customers_collection ?G \<noteq> None" by (simp add: stored_customers)
  have 3: "\<not> id_collision ?G ?R" by (simp add: id_collision_def stored_loaded)
  have 4: "domain_denied (intent_of (user_query ?R)) (domain ?R)" by (rule wifi_denied_in_finance)
  have 5: "chat_endpoint ?E ?R ?G =
             (fst (chat_endpoint ?E ?R ?G), fst (snd (chat_endpoint ?E ?R ?G)), snd (snd (chat_endpoint ?E ?R ?G)))"
    by simp
  have 6: "loaded_case ?G ?R \<noteq> None" by (simp add: stored_loaded)
  have 7: "profile_of ?G (customer_id (customer_profile ?R)) \<noteq> None"
    by (simp add: profile_of_def stored_customers sample_request_fields)
  note eff = denied_turn_effects [OF 1 2 3 4 5]
  from eff have a: "fst (chat_endpoint ?E ?R ?G) =
     Inr \<lparr>bot_response = refusal_text ''finance'', case_status = ''closed'', case_id = None,
          faq_suggestion = None, sentiment_detected = Some ''unanswered''\<rparr>"
    by (simp add: sample_request_fields)
  from eff 6 7 have b: "fst (snd (chat_endpoint ?E ?R ?G)) = ?G" by blast
  from 4 have c: "domain_denied (intent_of ''my wifi is down'') ''finance''"
    by (simp add: sample_request_fields)
  have f1: "cases_collection fresh_globals \<noteq> None" by (simp add: fresh_cases)
  have f2: "customers_collection fresh_globals \<noteq> None" by (simp add: fresh_customers)
  have f3: "\<not> id_collision fresh_globals ?R" by (simp add: id_collision_def case_of_def fresh_cases)
  have f5: "chat_endpoint ?E ?R fresh_globals =
             (fst (chat_endpoint ?E ?R fresh_globals), fst (snd (chat_endpoint ?E ?R fresh_globals)),
              snd (snd (chat_endpoint ?E ?R fresh_globals)))"
    by simp
  have f6: "loaded_case fresh_globals ?R = None" by (rule fresh_loaded)
  from denied_turn_effects [OF f1 f2 f3 4 f5] f6 have
    "case_of (fst (snd (chat_endpoint ?E ?R fresh_globals))) (session_id ?R) = Some (new_case ?E ?R)"
    by blast
  then have d: "case_of (fst (snd (chat_endpoint ?E ?R fresh_globals))) ''s1'' = Some (new_case ?E ?R)"
    by (simp only: sample_request_fields)
  from 1 2 3 c a b f6 d show ?thesis by (intro conjI)
qed

lemma classify_hello: "determine_intent_and_urgency ''hello'' = (''greeting'', ''low'', [])"
  by code_simp

lemma classify_wifi: "determine_intent_and_urgency ''my wifi is down'' = (''technical_support'', ''low'', [])"
  by code_simp

lemma sentiment_hello: "analyze_sentiment ''hello'' = ''neutral''"
  by code_simp

lemma sentiment_wifi: "analyze_sentiment ''my wifi is down'' = ''neutral''"
  by code_simp

lemma stored_call_gen:
  assumes "\<not> domain_denied (intent_of q) d" and "domain_prompts d \<noteq> None"
  shows "\<exists>res g' h t. chat_endpoint (sample_env kbs reply) (sample_request d q hist)
           (stored_globals st) = (res, g', [(h, t)])"
proof (rule chat_endpoint_reaches_llm)
  show "cases_collection (stored_globals st) \<noteq> None" by (simp add: stored_cases)
  show "customers_collection (stored_globals st) \<noteq> None" by (simp add: stored_customers)
  show "\<not> id_collision (stored_globals st) (sample_request d q hist)"
    by (simp add: id_collision_def stored_loaded)
  show "\<not> domain_denied (intent_of (user_query (sample_request d q hist)))
          (domain (sample_request d q hist))"
    using assms(1) by (simp add: sample_request_fields)
  show "kb_get (domain_knowledge_bases (sample_env kbs reply)) (domain (sample_request d q hist)) = [] \<or>
        domain_prompts (domain (sample_request d q hist)) \<noteq> None"
    using assms(2) by (simp add: sample_request_fields)
qed

text \<open>The stored case after a turn on a stored case that the model has answered.\<close>

lemma stored_answered:
  assumes "\<not> domain_denied (intent_of q) d" and "domain_prompts d \<noteq> None"
    and "determine_intent_and_urgency q = (intent, urgency, ents)"
    and "esc = manage_case_escalation (length hist div 2 + 1) intent urgency (analyze_sentiment q) False"
  shows "\<exists>c' t1 t2.
           case_of (fst (snd (chat_endpoint (sample_env kbs (Some reply)) (sample_request d q hist)
                                (stored_globals st)))) ''s1'' = Some c' \<and>
           escalated c' = esc \<and>
           status c' = (if esc then ''escalated_to_human'' else st) \<and>
           doc_conversation_history c' =
             hist @ turn_entries q t1 (if esc then reply @ handoff_notice else reply) t2"
proof -
  let ?E = "sample_env kbs (Some reply)"
  let ?R = "sample_request d q hist"
  let ?G = "stored_globals st"
  from stored_call_gen [OF assms(1,2)] obtain res g' h t where
    out: "chat_endpoint ?E ?R ?G = (res, g', [(h, t)])" by blast
  have ans: "send_message ?E h t = Some reply" by (simp add: sample_env_def)
  have cls: "determine_intent_and_urgency (user_query ?R) = (intent, urgency, ents)"
    using assms(3) by (simp add: sample_request_fields)
  have c: "sample_case st = (case loaded_case ?G ?R of Some c0 \<Rightarrow> c0 | None \<Rightarrow> new_case ?E ?R)"
    by (simp add: stored_loaded)
  have e: "esc = manage_case_escalation (length (conversation_history ?R) div 2 + 1)
                   intent urgency (analyze_sentiment (user_query ?R)) (escalated (sample_case st))"
    using assms(4) by (simp add: sample_request_fields sample_case_def)
  have n: "esc = (esc \<and> \<not> escalated (sample_case st))"
    by (simp add: sample_case_def)
  have st: "status (sample_case st) = st" by (simp add: sample_case_def)
  have "\<exists>c' t1 t2.
           case_of g' ''s1'' = Some c' \<and>
           escalated c' = esc \<and>
           status c' = (if esc then ''escalated_to_human'' else st) \<and>
           doc_conversation_history c' =
             hist @ turn_entries q t1 (if esc then reply @ handoff_notice else reply) t2"
    using answered_turn_stored [OF out ans cls c e n]
    by (simp only: sample_request_fields st)
  then show ?thesis unfolding out fst_conv snd_conv .
qed

text \<open>
  Claim C2 at a failing input. A new customer greets in the \<open>general\<close> domain and the
  call of the language model fails: the case that the turn stores has \<open>escalated\<close> set
  and status \<open>open\<close>.
\<close>

theorem llm_failure_status_open:
  "case_of fresh_globals ''s1'' = None \<and>
   map_option escalated
     (case_of (fst (snd (chat_endpoint (sample_env default_knowledge_bases None)
                           (sample_request ''general'' ''hello'' []) fresh_globals))) ''s1'') = Some True \<and>
   map_option status
     (case_of (fst (snd (chat_endpoint (sample_env default_knowledge_bases None)
                           (sample_request ''general'' ''hello'' []) fresh_globals))) ''s1'') = Some ''open''"
proof -
  let ?E = "sample_env default_knowledge_bases None"
  let ?R = "sample_request ''general'' ''hello'' []"
  obtain res g' h t where out: "chat_endpoint ?E ?R fresh_globals = (res, g', [(h, t)])"
    using sample_call by blast
  have fail: "send_message ?E h t = None" by (simp add: sample_env_def)
  from call_of_new_case [OF out fresh_loaded] obtain cs cu p where
    turn: "chat_turn ?E ?R fresh_globals cs cu (new_case ?E ?R) p 2 = (res, g', [(h, t)])" and
    stored: "cs (session_id ?R) = Some (new_case ?E ?R)"
    by blast
  from chat_turn_failed_call [OF turn fail stored] have
    1: "map_option escalated (case_of g' ''s1'') = Some True" and
    2: "map_option status (case_of g' ''s1'') = Some ''open''"
    by (auto simp: case_of_def sample_request_fields new_case_def)
  have 3: "case_of fresh_globals ''s1'' = None" by (simp add: case_of_def fresh_cases)
  from 1 2 3 show ?thesis by (simp add: out)
qed

lemma greeting_never_escalates:
  "manage_case_escalation n ''greeting'' ''low'' ''neutral'' False = False"
  by (simp add: manage_case_escalation_def escalating_intents_def)

lemma general_prompt: "domain_prompts ''general'' \<noteq> None"
  by (simp add: domain_prompts_def)

lemma technical_prompt: "domain_prompts ''technical'' \<noteq> None"
  by (simp add: domain_prompts_def)

lemma hello_general: "\<not> domain_denied (intent_of ''hello'') ''general''"
  by (simp add: intent_hello domain_denied_def permitted_intents_def domain_map_def)

lemma wifi_technical: "\<not> domain_denied (intent_of ''my wifi is down'') ''technical''"
  by (simp add: intent_wifi domain_denied_def permitted_intents_def domain_map_def)

lemma stored_history:
  "map_option doc_conversation_history (case_of (stored_globals st) ''s1'') =
     Some (doc_conversation_history (sample_case st))"
  by (simp add: case_of_def stored_cases)

text \<open>A greeting on the stored case, answered by the model.\<close>

lemma stored_hello_history:
  "\<exists>t1 t2. map_option doc_conversation_history
     (case_of (fst (snd (chat_endpoint (sample_env default_knowledge_bases (Some reply))
                           (sample_request ''general'' ''hello'' hist) (stored_globals st)))) ''s1'') =
     Some (hist @ turn_entries ''hello'' t1 reply t2)"
proof -
  have esc: "False = manage_case_escalation (length hist div 2 + 1) ''greeting'' ''low''
                       (analyze_sentiment ''hello'') False"
    by (simp add: sentiment_hello greeting_never_escalates)
  from stored_answered [OF hello_general general_prompt classify_hello esc]
  obtain c' t1 t2 where
    "case_of (fst (snd (chat_endpoint (sample_env default_knowledge_bases (Some reply))
                           (sample_request ''general'' ''hello'' hist) (stored_globals st)))) ''s1'' = Some c'"
    and "doc_conversation_history c' = hist @ turn_entries ''hello'' t1 (if False then reply @ handoff_notice else reply) t2"
    by blast
  then have "map_option doc_conversation_history
     (case_of (fst (snd (chat_endpoint (sample_env default_knowledge_bases (Some reply))
                           (sample_request ''general'' ''hello'' hist) (stored_globals st)))) ''s1'') =
     Some (hist @ turn_entries ''hello'' t1 reply t2)"
    by simp
  then show ?thesis by blast
qed

text \<open>
  Claim C3 as stated fails: a greeting on a resolved case, sent with the stored history,
  leaves four entries where two were stored.
\<close>

theorem resolved_case_still_appends:
  "map_option status (loaded_case (stored_globals ''resolved'')
      (sample_request ''general'' ''hello'' (doc_conversation_history (sample_case ''resolved'')))) =
     Some ''resolved'' \<and>
   map_option doc_conversation_history (case_of (stored_globals ''resolved'') ''s1'') =
     Some (doc_conversation_history (sample_case ''resolved'')) \<and>
   map_option (length \<circ> doc_conversation_history)
     (case_of (fst (snd (chat_endpoint (sample_env default_knowledge_bases (Some ''Hi again!''))
                           (sample_request ''general'' ''hello''
                              (doc_conversation_history (sample_case ''resolved'')))
                           (stored_globals ''resolved'')))) ''s1'') = Some 4 \<and>
   map_option doc_conversation_history
     (case_of (fst (snd (chat_endpoint (sample_env default_knowledge_bases (Some ''Hi again!''))
                           (sample_request ''general'' ''hello''
                              (doc_conversation_history (sample_case ''resolved'')))
                           (stored_globals ''resolved'')))) ''s1'') \<noteq>
     map_option doc_conversation_history (case_of (stored_globals ''resolved'') ''s1'')"
proof -
  let ?old = "doc_conversation_history (sample_case ''resolved'')"
  let ?g' = "fst (snd (chat_endpoint (sample_env default_knowledge_bases (Some ''Hi again!''))
                           (sample_request ''general'' ''hello'' ?old) (stored_globals ''resolved'')))"
  have 1: "map_option status (loaded_case (stored_globals ''resolved'')
              (sample_request ''general'' ''hello'' ?old)) = Some ''resolved''"
    by (simp add: stored_loaded sample_case_def)
  from stored_hello_history [of "''Hi again!''" ?old "''resolved''"] obtain t1 t2 where
    new: "map_option doc_conversation_history (case_of ?g' ''s1'') =
            Some (?old @ turn_entries ''hello'' t1 ''Hi again!'' t2)"
    by blast
  have len: "length ?old = 2" by (simp add: sample_case_def turn_entries_def)
  from new have 3: "map_option (length \<circ> doc_conversation_history) (case_of ?g' ''s1'') = Some 4"
    by (cases "case_of ?g' ''s1''") (auto simp: len turn_entries_def)
  have 4: "map_option doc_conversation_history (case_of ?g' ''s1'') \<noteq>
           map_option doc_conversation_history (case_of (stored_globals ''resolved'') ''s1'')"
    unfolding new stored_history by (simp add: turn_entries_def)
  from 1 stored_history [of "''resolved''"] 3 4 show ?thesis by (intro conjI)
qed

text \<open>
  Claim C4 as stated fails when the request carries no history while the case has one:
  the two stored entries are replaced by the two new ones.
\<close>

theorem request_history_overwrites_stored:
  "map_option doc_conversation_history (case_of (stored_globals ''open'') ''s1'') =
     Some (turn_entries ''hello'' ''2025-12-31T10:00:03'' ''Hello! How can I help?'' ''2025-12-31T10:00:04'') \<and>
   map_option (map content \<circ> doc_conversation_history)
     (case_of (fst (snd (chat_endpoint (sample_env default_knowledge_bases (Some ''Hi again!''))
                           (sample_request ''general'' ''hello'' []) (stored_globals ''open'')))) ''s1'') =
     Some [''hello'', ''Hi again!'']"
proof -
  let ?g' = "fst (snd (chat_endpoint (sample_env default_knowledge_bases (Some ''Hi again!''))
                           (sample_request ''general'' ''hello'' []) (stored_globals ''open'')))"
  have 1: "map_option doc_conversation_history (case_of (stored_globals ''open'') ''s1'') =
     Some (turn_entries ''hello'' ''2025-12-31T10:00:03'' ''Hello! How can I help?'' ''2025-12-31T10:00:04'')"
    by (simp add: stored_history sample_case_def)
  from stored_hello_history [of "''Hi again!''" "[]" "''open''"] obtain t1 t2 where
    new: "map_option doc_conversation_history (case_of ?g' ''s1'') =
            Some ([] @ turn_entries ''hello'' t1 ''Hi again!'' t2)"
    by blast
  then have 2: "map_option (map content \<circ> doc_conversation_history) (case_of ?g' ''s1'') =
                  Some [''hello'', ''Hi again!'']"
    by (cases "case_of ?g' ''s1''") (auto simp: turn_entries_def)
  from 1 2 show ?thesis by (intro conjI)
qed

subsection \<open>Domains outside the table\<close>

lemma unknown_domain_guard:
  assumes "d \<notin> set [''general'', ''technical'', ''finance'', ''travel'']"
  shows "permitted_intents d = []" and "domain_denied intent d = (intent \<noteq> ''general_inquiry'')"
  using assms by (simp_all add: permitted_intents_def domain_map_def domain_denied_def)

lemma unknown_domain_prompt:
  assumes "d \<notin> set [''general'', ''technical'', ''finance'', ''travel'']"
  shows "domain_prompts d = None"
  using assms by (simp add: domain_prompts_def)

text \<open>
  A request for a domain outside the four of \<^verbatim>\<open>domain_map\<close>: every intent but
  \<open>general_inquiry\<close> is refused; \<open>general_inquiry\<close> passes the restriction, and then
  reaches the model when the knowledge base has no entry for the domain, and raises
  \<^verbatim>\<open>KeyError\<close> when it has one.
\<close>

lemma unknown_domain_turn:
  assumes "domain request \<notin> set [''general'', ''technical'', ''finance'', ''travel'']"
    and "cases_collection g \<noteq> None" and "customers_collection g \<noteq> None"
    and "\<not> id_collision g request"
  shows "(intent_of (user_query request) \<noteq> ''general_inquiry'' \<longrightarrow>
            fst (chat_endpoint e request g) = Inr (refusal (domain request)) \<and>
            snd (snd (chat_endpoint e request g)) = []) \<and>
         (intent_of (user_query request) = ''general_inquiry'' \<and>
          kb_get (domain_knowledge_bases e) (domain request) = [] \<longrightarrow>
            (\<exists>resp g' h t. chat_endpoint e request g = (Inr resp, g', [(h, t)]))) \<and>
         (intent_of (user_query request) = ''general_inquiry'' \<and>
          kb_get (domain_knowledge_bases e) (domain request) \<noteq> [] \<longrightarrow>
            fst (chat_endpoint e request g) = Inl (KeyError (domain request)) \<and>
            snd (snd (chat_endpoint e request g)) = [])"
proof -
  from chat_endpoint_is_turn [OF assms(2-4)] obtain cs cu c p k where
    turn: "chat_endpoint e request g = chat_turn e request g cs cu c p k" by blast
  note guard = unknown_domain_guard(2) [OF assms(1)]
  have a: "fst (chat_endpoint e request g) = Inr (refusal (domain request)) \<and>
           snd (snd (chat_endpoint e request g)) = []"
    if "intent_of (user_query request) \<noteq> ''general_inquiry''"
    using that turn chat_turn_denied [of request e g cs cu c p k] guard by simp
  have b: "\<exists>resp g' h t. chat_endpoint e request g = (Inr resp, g', [(h, t)])"
    if "intent_of (user_query request) = ''general_inquiry''"
      and "kb_get (domain_knowledge_bases e) (domain request) = []"
  proof -
    have nd: "\<not> domain_denied (intent_of (user_query request)) (domain request)"
      using that(1) guard by simp
    have ex: "add_examples (domain request) (kb_get (domain_knowledge_bases e) (domain request))
                domain_prompts = Inr domain_prompts"
      using that(2) by simp
    from chat_turn_reaches_llm [OF nd ex] obtain res g' h t where
      out: "chat_turn e request g cs cu c p k = (res, g', [(h, t)])" by blast
    from out obtain resp where "res = Inr resp"
      by (auto simp: chat_turn_def Let_def split: prod.splits if_splits sum.splits)
    with out turn show ?thesis by simp
  qed
  have c: "fst (chat_endpoint e request g) = Inl (KeyError (domain request)) \<and>
           snd (snd (chat_endpoint e request g)) = []"
    if "intent_of (user_query request) = ''general_inquiry''"
      and "kb_get (domain_knowledge_bases e) (domain request) \<noteq> []"
  proof -
    have nd: "\<not> domain_denied (intent_of (user_query request)) (domain request)"
      using that(1) guard by simp
    have ex: "add_examples (domain request) (kb_get (domain_knowledge_bases e) (domain request))
                domain_prompts = Inl (KeyError (domain request))"
      using that(2) unknown_domain_prompt [OF assms(1)] by (rule add_examples_unknown [rotated])
    from chat_turn_key_error [OF nd ex] turn show ?thesis by simp
  qed
  from a b c show ?thesis by blast
qed

text \<open>
  Claim C10 at a failing input. The knowledge base has an entry for the domain
  \<open>sports\<close>, for which \<^verbatim>\<open>domain_prompts\<close> has no prompt. A query of intent
  \<open>general_inquiry\<close> in that domain passes the domain restriction, and then the request
  raises \<^verbatim>\<open>KeyError\<close> and calls no model.
\<close>

theorem unknown_domain_key_error:
  "intent_of ''what is this'' = ''general_inquiry'' \<and>
   permitted_intents ''sports'' = [] \<and>
   \<not> domain_denied ''general_inquiry'' ''sports'' \<and>
   fst (chat_endpoint (sample_env [(''sports'', [(''ball'', ''round'')])] (Some ''Hi!''))
          (sample_request ''sports'' ''what is this'' []) fresh_globals) = Inl (KeyError ''sports'') \<and>
   snd (snd (chat_endpoint (sample_env [(''sports'', [(''ball'', ''round'')])] (Some ''Hi!''))
               (sample_request ''sports'' ''what is this'' []) fresh_globals)) = []"
proof -
  let ?E = "sample_env [(''sports'', [(''ball'', ''round'')])] (Some ''Hi!'')"
  let ?R = "sample_request ''sports'' ''what is this'' []"
  have d: "domain ?R \<notin> set [''general'', ''technical'', ''finance'', ''travel'']"
    by (simp add: sample_request_fields)
  have 1: "cases_collection fresh_globals \<noteq> None" by (simp add: fresh_cases)
  have 2: "customers_collection fresh_globals \<noteq> None" by (simp add: fresh_customers)
  have 3: "\<not> id_collision fresh_globals ?R" by (simp add: id_collision_def case_of_def fresh_cases)
  have i: "intent_of (user_query ?R) = ''general_inquiry''"
    by (simp add: sample_request_fields intent_what)
  have k: "kb_get (domain_knowledge_bases ?E) (domain ?R) \<noteq> []"
    by (simp add: sample_request_fields sample_env_def kb_get_def)
  from unknown_domain_turn [OF d 1 2 3, of ?E] i k have
    "fst (chat_endpoint ?E ?R fresh_globals) = Inl (KeyError (domain ?R)) \<and>
     snd (snd (chat_endpoint ?E ?R fresh_globals)) = []"
    by blast
  moreover have "permitted_intents ''sports'' = []"
    by (simp add: permitted_intents_def domain_map_def)
  moreover have "\<not> domain_denied ''general_inquiry'' ''sports''"
    by (simp add: domain_denied_def)
  ultimately show ?thesis using intent_what by (simp add: sample_request_fields)
qed

text \<open>
  A refused request and a greeting on a resolved case.
\<close>

theorem terminal_case_chat_witness:
  "customers_collection (stored_globals ''resolved'') \<noteq> None \<and>
   loaded_case (stored_globals ''resolved'') (sample_request ''finance'' ''my wifi is down'' []) =
     Some (sample_case ''resolved'') \<and>
   status (sample_case ''resolved'') = ''resolved'' \<and>
   fst (chat_endpoint (sample_env default_knowledge_bases (Some ''Hi again!''))
          (sample_request ''finance'' ''my wifi is down'' []) (stored_globals ''resolved'')) =
     Inr (refusal ''finance'') \<and>
   case_of (fst (snd (chat_endpoint (sample_env default_knowledge_bases (Some ''Hi again!''))
                        (sample_request ''finance'' ''my wifi is down'' []) (stored_globals ''resolved'')))) =
     case_of (stored_globals ''resolved'') \<and>
   resolve_case_endpoint (sample_env default_knowledge_bases (Some ''Hi again!'')) ''s1''
     (stored_globals ''resolved'') =
     (Inr (''Case '' @ ''s1'' @ '' is already resolved.''), stored_globals ''resolved'') \<and>
   (\<exists>resp c' t1 t2.
      fst (chat_endpoint (sample_env default_knowledge_bases (Some ''Hi again!''))
             (sample_request ''general'' ''hello'' []) (stored_globals ''resolved'')) = Inr resp \<and>
      case_id resp = Some ''s1'' \<and>
      case_of (fst (snd (chat_endpoint (sample_env default_knowledge_bases (Some ''Hi again!''))
                           (sample_request ''general'' ''hello'' []) (stored_globals ''resolved'')))) ''s1'' =
        Some c' \<and>
      doc_conversation_history c' = [] @ turn_entries ''hello'' t1 (bot_response resp) t2)"
proof -
  let ?E = "sample_env default_knowledge_bases (Some ''Hi again!'')"
  let ?G = "stored_globals ''resolved''"
  let ?RA = "sample_request ''finance'' ''my wifi is down'' []"
  let ?RB = "sample_request ''general'' ''hello'' []"
  have 1: "customers_collection ?G \<noteq> None" by (simp add: stored_customers)
  have 2: "loaded_case ?G ?RA = Some (sample_case ''resolved'')" by (rule stored_loaded)
  have lb: "loaded_case ?G ?RB = Some (sample_case ''resolved'')" by (rule stored_loaded)
  have 3: "status (sample_case ''resolved'') = ''resolved''" by (simp add: sample_case_def)
  then have st3: "status (sample_case ''resolved'') = ''resolved'' \<or> status (sample_case ''resolved'') = ''closed''"
    by simp
  have pa: "chat_endpoint ?E ?RA ?G =
             (fst (chat_endpoint ?E ?RA ?G), fst (snd (chat_endpoint ?E ?RA ?G)), snd (snd (chat_endpoint ?E ?RA ?G)))"
    by simp
  have pb: "chat_endpoint ?E ?RB ?G =
             (fst (chat_endpoint ?E ?RB ?G), fst (snd (chat_endpoint ?E ?RB ?G)), snd (snd (chat_endpoint ?E ?RB ?G)))"
    by simp
  note A = terminal_case_chat [OF 1 2 st3 pa]
  note B = terminal_case_chat [OF 1 lb st3 pb]
  have den: "domain_denied (intent_of (user_query ?RA)) (domain ?RA)" by (rule wifi_denied_in_finance)
  from A den have a1: "fst (chat_endpoint ?E ?RA ?G) = Inr (refusal (domain ?RA))"
    and a2: "snd (snd (chat_endpoint ?E ?RA ?G)) = []" by blast+
  from A a2 have a3: "case_of (fst (snd (chat_endpoint ?E ?RA ?G))) = case_of ?G" by blast
  from A have a4: "resolve_case_endpoint ?E (session_id ?RA) ?G =
                     (Inr (''Case '' @ session_id ?RA @ '' is already resolved.''), ?G)" by blast
  from stored_call [of "Some ''Hi again!''" "[]" "''resolved''"] have "snd (snd (chat_endpoint ?E ?RB ?G)) \<noteq> []"
    by auto
  with B have "\<exists>resp c' t1 t2.
               fst (chat_endpoint ?E ?RB ?G) = Inr resp \<and> case_id resp = Some (session_id ?RB) \<and>
               case_of (fst (snd (chat_endpoint ?E ?RB ?G))) (session_id ?RB) = Some c' \<and>
               doc_conversation_history c' =
                 conversation_history ?RB @
                 turn_entries (user_query ?RB) t1 (bot_response resp) t2" by blast
  then have b: "\<exists>resp c' t1 t2.
      fst (chat_endpoint ?E ?RB ?G) = Inr resp \<and> case_id resp = Some ''s1'' \<and>
      case_of (fst (snd (chat_endpoint ?E ?RB ?G))) ''s1'' = Some c' \<and>
      doc_conversation_history c' = [] @ turn_entries ''hello'' t1 (bot_response resp) t2"
    by (simp only: sample_request_fields)
  from a1 have a1': "fst (chat_endpoint ?E ?RA ?G) = Inr (refusal ''finance'')"
    by (simp only: sample_request_fields)
  from a4 have a4': "resolve_case_endpoint ?E ''s1'' ?G =
                     (Inr (''Case '' @ ''s1'' @ '' is already resolved.''), ?G)"
    by (simp only: sample_request_fields)
  from 1 2 3 a1' a3 a4' b show ?thesis by (intro conjI)
qed

text \<open>
  A request that carries the stored history of its case: the turn adds two entries.
\<close>

theorem turn_stores_request_history_witness:
  "snd (snd (chat_endpoint (sample_env default_knowledge_bases (Some ''Hi again!''))
               (sample_request ''general'' ''hello'' (doc_conversation_history (sample_case ''open'')))
               (stored_globals ''open''))) \<noteq> [] \<and>
   (\<exists>resp c' t1 t2.
      fst (chat_endpoint (sample_env default_knowledge_bases (Some ''Hi again!''))
             (sample_request ''general'' ''hello'' (doc_conversation_history (sample_case ''open'')))
             (stored_globals ''open'')) = Inr resp \<and>
      case_of (fst (snd (chat_endpoint (sample_env default_knowledge_bases (Some ''Hi again!''))
                           (sample_request ''general'' ''hello'' (doc_conversation_history (sample_case ''open'')))
                           (stored_globals ''open'')))) ''s1'' = Some c' \<and>
      doc_conversation_history c' =
        doc_conversation_history (sample_case ''open'') @
        turn_entries ''hello'' t1 (bot_response resp) t2)"
proof -
  let ?E = "sample_env default_knowledge_bases (Some ''Hi again!'')"
  let ?G = "stored_globals ''open''"
  let ?R = "sample_request ''general'' ''hello'' (doc_conversation_history (sample_case ''open''))"
  have p: "chat_endpoint ?E ?R ?G =
             (fst (chat_endpoint ?E ?R ?G), fst (snd (chat_endpoint ?E ?R ?G)), snd (snd (chat_endpoint ?E ?R ?G)))"
    by simp
  from stored_call [of "Some ''Hi again!''" "doc_conversation_history (sample_case ''open'')" "''open''"]
  have ne: "snd (snd (chat_endpoint ?E ?R ?G)) \<noteq> []" by auto
  from turn_stores_request_history [OF p ne] obtain resp c' t1 t2 where
    "fst (chat_endpoint ?E ?R ?G) = Inr resp" and
    "case_of (fst (snd (chat_endpoint ?E ?R ?G))) (session_id ?R) = Some c'" and
    "doc_conversation_history c' =
       conversation_history ?R @ turn_entries (user_query ?R) t1 (bot_response resp) t2"
    by blast
  then have "fst (chat_endpoint ?E ?R ?G) = Inr resp \<and>
      case_of (fst (snd (chat_endpoint ?E ?R ?G))) ''s1'' = Some c' \<and>
      doc_conversation_history c' =
        doc_conversation_history (sample_case ''open'') @
        turn_entries ''hello'' t1 (bot_response resp) t2"
    by (simp only: sample_request_fields)
  then have "\<exists>resp c' t1 t2. fst (chat_endpoint ?E ?R ?G) = Inr resp \<and>
      case_of (fst (snd (chat_endpoint ?E ?R ?G))) ''s1'' = Some c' \<and>
      doc_conversation_history c' =
        doc_conversation_history (sample_case ''open'') @
        turn_entries ''hello'' t1 (bot_response resp) t2"
    by blast
  with ne show ?thesis by (intro conjI)
qed

text \<open>
  A technical query on the third turn of the stored case: the policy escalates, and the
  stored flag is set.
\<close>

theorem escalation_policy_witness:
  "manage_case_escalation 3 ''technical_support'' ''low'' ''neutral'' False \<and>
   \<not> manage_case_escalation 2 ''technical_support'' ''low'' ''frustrated'' False \<and>
   map_option escalated
     (case_of (fst (snd (chat_endpoint (sample_env default_knowledge_bases (Some ''Try a restart.''))
        (sample_request ''technical'' ''my wifi is down''
           (doc_conversation_history (sample_case ''open'') @ doc_conversation_history (sample_case ''open'')))
        (stored_globals ''open'')))) ''s1'') = Some True"
proof -
  let ?E = "sample_env default_knowledge_bases (Some ''Try a restart.'')"
  let ?G = "stored_globals ''open''"
  let ?H = "doc_conversation_history (sample_case ''open'') @ doc_conversation_history (sample_case ''open'')"
  let ?R = "sample_request ''technical'' ''my wifi is down'' ?H"
  have 1: "manage_case_escalation 3 ''technical_support'' ''low'' ''neutral'' False"
    using escalation_policy [of 3 "''technical_support''" "''low''" "''neutral''" False] by simp
  have 2: "\<not> manage_case_escalation 2 ''technical_support'' ''low'' ''frustrated'' False"
    using escalation_policy [of 2 "''technical_support''" "''low''" "''frustrated''" False] by simp
  from stored_call_gen [OF wifi_technical technical_prompt] obtain res g' h t where
    out: "chat_endpoint ?E ?R ?G = (res, g', [(h, t)])" by blast
  have ans: "send_message ?E h t = Some ''Try a restart.''" by (simp add: sample_env_def)
  have cls: "determine_intent_and_urgency (user_query ?R) = (''technical_support'', ''low'', [])"
    by (simp add: sample_request_fields classify_wifi)
  have len: "length (doc_conversation_history (sample_case ''open'')) = 2"
    by (simp add: sample_case_def turn_entries_def)
  from escalation_policy [of _ _ _ _ _ ?E ?R ?G res g' h t "''Try a restart.''" "''technical_support''" "''low''" "[]"]
    out ans cls
  have "map_option escalated (case_of g' (session_id ?R)) =
          Some (manage_case_escalation (length (conversation_history ?R) div 2 + 1)
                  ''technical_support'' ''low'' (analyze_sentiment (user_query ?R))
                  (case loaded_case ?G ?R of Some c \<Rightarrow> escalated c | None \<Rightarrow> False))"
    by blast
  moreover have "length (conversation_history ?R) div 2 + 1 = 3"
    by (simp add: sample_request_fields len)
  moreover have "analyze_sentiment (user_query ?R) = ''neutral''"
    by (simp add: sample_request_fields sentiment_wifi)
  moreover have "(case loaded_case ?G ?R of Some c \<Rightarrow> escalated c | None \<Rightarrow> False) = False"
    by (simp add: stored_loaded sample_case_def)
  moreover have "session_id ?R = ''s1''" by (simp add: sample_request_fields)
  ultimately have "map_option escalated (case_of g' ''s1'') =
          Some (manage_case_escalation 3 ''technical_support'' ''low'' ''neutral'' False)"
    by (simp only:)
  with 1 have 3: "map_option escalated (case_of (fst (snd (chat_endpoint ?E ?R ?G))) ''s1'') = Some True"
    by (simp add: out)
  from 1 2 3 show ?thesis by (intro conjI)
qed

end
